theory Spec2Isabelle
  imports
    Complex_Main
    "HOL-Library.Char_ord"
    "HOL-Library.List_Lexorder"
    "HOL-Library.Product_Lexorder"
    "HOL-Library.Multiset"
begin

section \<open>Scheduling, queueing and dispatch of the social-media automation\<close>

text \<open>
  The development embeds four modules of \<^verbatim>\<open>social-media-automation\<close>:
  \<^verbatim>\<open>duplicate_content_handler.py\<close>, \<^verbatim>\<open>unified_queue_manager.py\<close>,
  \<^verbatim>\<open>social_publisher.py\<close> and \<^verbatim>\<open>smart_scheduler.py\<close>.

  Conventions of the embedding.
  \<^item> Python \<^verbatim>\<open>str\<close> is \<open>string\<close>; comparison of strings is the lexicographic
    order on character codes, as in Python. Python \<^verbatim>\<open>int\<close> is \<open>int\<close>.
  \<^item> A \<^verbatim>\<open>datetime\<close> is a count of microseconds on the wall clock, counted from
    1970-01-01T00:00:00, naive or with a UTC offset. The bounded range of the library
    types is modelled where the queue manager computes an instant from an argument of
    its caller outside any \<^verbatim>\<open>try\<close> (the cutoff of \<^verbatim>\<open>get_due_content\<close>); elsewhere
    arithmetic on instants is exact integer arithmetic.
  \<^item> The library functions \<^verbatim>\<open>datetime.fromisoformat\<close> and \<^verbatim>\<open>datetime.isoformat\<close>,
    the clock, \<^verbatim>\<open>uuid.uuid4\<close>, \<^verbatim>\<open>random.choice\<close>, the file system and the Graph API are
    not part of the repository; the functions that use them take their values as
    arguments. Nothing is assumed about them.
  \<^item> Mutation is explicit state passing. Where the source mutates an object that is
    shared with a list (the scheduler's queue), objects live in a store and the list
    holds references.
\<close>

subsection \<open>Instants\<close>

datatype datetime = Naive int | Aware int int

text \<open>\<open>Naive t\<close>: wall-clock microseconds. \<open>Aware t off\<close>: wall-clock microseconds and
  the UTC offset in microseconds.\<close>

fun wall :: "datetime \<Rightarrow> int" where
  "wall (Naive t) = t"
| "wall (Aware t off) = t"

text \<open>\<^verbatim>\<open>d + timedelta(microseconds=us)\<close>: the wall clock moves, the offset stays.\<close>

fun plus_micros :: "datetime \<Rightarrow> int \<Rightarrow> datetime" where
  "plus_micros (Naive t) us = Naive (t + us)"
| "plus_micros (Aware t off) us = Aware (t + us) off"

definition micros_per_day :: int where
  "micros_per_day = 86400000000"

definition timedelta_days :: "int \<Rightarrow> int" where
  "timedelta_days d = d * micros_per_day"

definition timedelta_hours :: "int \<Rightarrow> int" where
  "timedelta_hours h = h * 3600000000"

definition timedelta_minutes :: "int \<Rightarrow> int" where
  "timedelta_minutes m = m * 60000000"

text \<open>The calendar day of an instant, as a day number.\<close>

definition day_of :: "datetime \<Rightarrow> int" where
  "day_of d = wall d div micros_per_day"

subsection \<open>Duplicate content handler\<close>

text \<open>\<^verbatim>\<open>page_router.PageRoute\<close>.\<close>

record PageRoute =
  route_page_id :: string
  route_page_name :: string
  route_reason :: string
  route_priority :: int

text \<open>One dictionary of \<^verbatim>\<open>DuplicateSchedule.schedules\<close>. The key \<^verbatim>\<open>is_original\<close> is
  only present in the entries of the staggered branch.\<close>

record schedule_entry =
  entry_page_id :: string
  entry_page_name :: string
  entry_scheduled_time :: datetime
  entry_is_original :: "bool option"

record DuplicateSchedule =
  original_time :: datetime
  schedules :: "schedule_entry list"
  ds_duplicate_group_id :: string
  ds_min_day_gap :: int

text \<open>\<^verbatim>\<open>sorted(routes, key=lambda r: r.priority, reverse=True)\<close>: a stable sort in
  descending priority; routes of equal priority keep their order.\<close>

definition sorted_routes :: "PageRoute list \<Rightarrow> PageRoute list" where
  "sorted_routes routes = sort_key (\<lambda>r. - route_priority r) routes"

text \<open>The loop \<^verbatim>\<open>for i, route in enumerate(sorted_routes)\<close>; \<open>n\<close> is
  \<^verbatim>\<open>len(sorted_routes)\<close>, \<open>cur\<close> is \<^verbatim>\<open>current_time\<close>.\<close>

fun stagger :: "int \<Rightarrow> nat \<Rightarrow> datetime \<Rightarrow> nat \<Rightarrow> PageRoute list \<Rightarrow> schedule_entry list" where
  "stagger gap n cur i [] = []"
| "stagger gap n cur i (route # rest) =
     \<lparr>entry_page_id = route_page_id route,
      entry_page_name = route_page_name route,
      entry_scheduled_time = cur,
      entry_is_original = Some (i = 0)\<rparr>
     # stagger gap n
         (if int i < int n - 1 then plus_micros cur (timedelta_days gap) else cur)
         (Suc i) rest"

text \<open>\<^verbatim>\<open>DuplicateContentHandler.schedule_duplicate_content\<close>. \<open>gap\<close> is
  \<^verbatim>\<open>self.min_day_gap\<close>; \<open>uuid\<close> is the value of the one call of
  \<^verbatim>\<open>str(uuid.uuid4())\<close> that either branch makes.\<close>

definition schedule_duplicate_content ::
  "int \<Rightarrow> string \<Rightarrow> PageRoute list \<Rightarrow> datetime \<Rightarrow> DuplicateSchedule" where
  "schedule_duplicate_content gap uuid routes base_time =
     (if length routes \<le> 1 then
        \<lparr>original_time = base_time,
         schedules = (case routes of
              [] \<Rightarrow> []
            | r # _ \<Rightarrow> [\<lparr>entry_page_id = route_page_id r,
                         entry_page_name = route_page_name r,
                         entry_scheduled_time = base_time,
                         entry_is_original = None\<rparr>]),
         ds_duplicate_group_id = uuid,
         ds_min_day_gap = 0\<rparr>
      else
        \<lparr>original_time = base_time,
         schedules = stagger gap (length (sorted_routes routes)) base_time 0 (sorted_routes routes),
         ds_duplicate_group_id = uuid,
         ds_min_day_gap = gap\<rparr>)"


subsection \<open>Unified queue manager\<close>

text \<open>The dataclass \<^verbatim>\<open>QueuedContent\<close>. \<open>scheduled_time\<close> is a string (ISO format),
  as in the source.\<close>

record QueuedContent =
  content_id :: string
  content_type :: string
  page_id :: string
  page_name :: string
  platform :: string
  content_text :: string
  hashtags :: "string list"
  link :: string
  image_path :: "string option"
  alt_text :: "string option"
  source_name :: string
  category :: string
  scheduled_time :: string
  priority :: int
  created_at :: string
  is_duplicate :: bool
  duplicate_group_id :: "string option"

text \<open>The dictionary that \<^verbatim>\<open>mark_posted\<close> appends to the posting history.\<close>

record history_entry =
  h_content_id :: string
  h_content_type :: string
  h_source_name :: string
  h_page_id :: string
  h_page_name :: string
  h_platform :: string
  h_post_id :: string
  h_scheduled_time :: string
  h_posted_at :: string
  h_is_duplicate :: bool
  h_duplicate_group_id :: "string option"

text \<open>Objects are held by reference: \<open>objects\<close> maps a reference to the object it
  denotes, \<open>queue\<close> is \<^verbatim>\<open>self.queue\<close>, a list of references. Writing the queue and the
  history to their JSON files (\<^verbatim>\<open>_save_queue\<close>, \<^verbatim>\<open>_save_posting_history\<close>, whose
  errors are logged and swallowed) does not change either list and is left out.\<close>

type_synonym ref = nat

record manager =
  objects :: "ref \<Rightarrow> QueuedContent"
  queue :: "ref list"
  posting_history :: "history_entry list"

text \<open>The key of \<^verbatim>\<open>_sort_queue\<close>: \<^verbatim>\<open>lambda x: (x.scheduled_time, -x.priority)\<close>. Tuples
  are ordered lexicographically, strings by character code.\<close>

definition queue_key :: "QueuedContent \<Rightarrow> string \<times> int" where
  "queue_key x = (scheduled_time x, - priority x)"

text \<open>\<^verbatim>\<open>self.queue.sort(key=...)\<close>: a stable sort.\<close>

definition sort_queue :: "manager \<Rightarrow> manager" where
  "sort_queue m = m\<lparr>queue := sort_key (\<lambda>r. queue_key (objects m r)) (queue m)\<rparr>"

definition add_content :: "ref \<Rightarrow> manager \<Rightarrow> manager" where
  "add_content c m = sort_queue (m\<lparr>queue := queue m @ [c]\<rparr>)"

definition add_batch :: "ref list \<Rightarrow> manager \<Rightarrow> manager" where
  "add_batch cs m = sort_queue (m\<lparr>queue := queue m @ cs\<rparr>)"

definition remove_content :: "string \<Rightarrow> manager \<Rightarrow> bool \<times> manager" where
  "remove_content cid m =
     (let original_len = length (queue m);
          m' = m\<lparr>queue := filter (\<lambda>c. content_id (objects m c) \<noteq> cid) (queue m)\<rparr>
      in if length (queue m') < original_len then (True, m') else (False, m'))"

text \<open>\<open>posted_at\<close> is the value of \<^verbatim>\<open>datetime.now().isoformat()\<close>.\<close>

definition mark_posted :: "ref \<Rightarrow> string \<Rightarrow> string \<Rightarrow> manager \<Rightarrow> manager" where
  "mark_posted c post_id posted_at m =
     (let content = objects m c;
          m' = snd (remove_content (content_id content) m);
          history_entry =
            \<lparr>h_content_id = content_id content,
             h_content_type = content_type content,
             h_source_name = source_name content,
             h_page_id = page_id content,
             h_page_name = page_name content,
             h_platform = platform content,
             h_post_id = post_id,
             h_scheduled_time = scheduled_time content,
             h_posted_at = posted_at,
             h_is_duplicate = is_duplicate content,
             h_duplicate_group_id = duplicate_group_id content\<rparr>
      in m'\<lparr>posting_history := posting_history m' @ [history_entry]\<rparr>)"

text \<open>The loop of \<^verbatim>\<open>reschedule_content\<close>: the first queued object with the given id.\<close>

fun find_content :: "(ref \<Rightarrow> QueuedContent) \<Rightarrow> string \<Rightarrow> ref list \<Rightarrow> ref option" where
  "find_content obj cid [] = None"
| "find_content obj cid (c # cs) =
     (if content_id (obj c) = cid then Some c else find_content obj cid cs)"

text \<open>\<open>isoformat\<close> is \<^verbatim>\<open>datetime.isoformat\<close>. The object found is mutated in place,
  then the queue is sorted.\<close>

definition reschedule_content ::
  "(datetime \<Rightarrow> string) \<Rightarrow> string \<Rightarrow> datetime \<Rightarrow> manager \<Rightarrow> bool \<times> manager" where
  "reschedule_content isoformat cid new_time m =
     (case find_content (objects m) cid (queue m) of
        Some c \<Rightarrow>
          (True, sort_queue (m\<lparr>objects := (objects m)
                  (c := (objects m c)\<lparr>scheduled_time := isoformat new_time\<rparr>)\<rparr>))
      | None \<Rightarrow> (False, m))"

text \<open>Comparison of two instants: comparing a naive with an aware one raises
  \<^verbatim>\<open>TypeError\<close> (\<open>None\<close>); aware instants compare by UTC time.\<close>

fun dt_le :: "datetime \<Rightarrow> datetime \<Rightarrow> bool option" where
  "dt_le (Naive a) (Naive b) = Some (a \<le> b)"
| "dt_le (Aware a oa) (Aware b ob) = Some (a - oa \<le> b - ob)"
| "dt_le (Naive a) (Aware b ob) = None"
| "dt_le (Aware a oa) (Naive b) = None"

text \<open>The body of the \<^verbatim>\<open>try\<close> in \<^verbatim>\<open>get_due_content\<close> for one item, applied to its
  \<open>scheduled_time\<close>: \<open>fromisoformat\<close> is \<^verbatim>\<open>datetime.fromisoformat\<close> (\<open>None\<close> when it
  raises); the chained comparison \<^verbatim>\<open>now <= scheduled <= cutoff\<close> stops at the first
  false comparison.\<close>

datatype due_check = Due | NotDue | Failed

definition check_due ::
  "(string \<Rightarrow> datetime option) \<Rightarrow> datetime \<Rightarrow> datetime \<Rightarrow> string \<Rightarrow> due_check" where
  "check_due fromisoformat now cutoff s =
     (case fromisoformat s of
        None \<Rightarrow> Failed
      | Some scheduled \<Rightarrow>
          (case dt_le now scheduled of
             None \<Rightarrow> Failed
           | Some False \<Rightarrow> NotDue
           | Some True \<Rightarrow>
               (case dt_le scheduled cutoff of
                  None \<Rightarrow> Failed
                | Some False \<Rightarrow> NotDue
                | Some True \<Rightarrow> Due)))"

text \<open>The loop of \<^verbatim>\<open>get_due_content\<close>. The result is the pair of the list \<^verbatim>\<open>due\<close>
  and of the items for which the \<^verbatim>\<open>except\<close> branch called \<^verbatim>\<open>logger.error\<close>.\<close>

fun due_loop ::
  "(string \<Rightarrow> datetime option) \<Rightarrow> (ref \<Rightarrow> QueuedContent) \<Rightarrow> datetime \<Rightarrow> datetime
     \<Rightarrow> ref list \<Rightarrow> ref list \<times> ref list" where
  "due_loop fromisoformat obj now cutoff [] = ([], [])"
| "due_loop fromisoformat obj now cutoff (c # cs) =
     (let (due, logged) = due_loop fromisoformat obj now cutoff cs
      in case check_due fromisoformat now cutoff (scheduled_time (obj c)) of
           Due \<Rightarrow> (c # due, logged)
         | NotDue \<Rightarrow> (due, logged)
         | Failed \<Rightarrow> (due, c # logged))"

text \<open>The library raises \<^verbatim>\<open>OverflowError\<close> when a \<^verbatim>\<open>timedelta\<close> has more than
  999999999 days in either direction, and when the sum of a \<^verbatim>\<open>datetime\<close> and a
  \<^verbatim>\<open>timedelta\<close> lies outside \<^verbatim>\<open>datetime.min\<close> (0001-01-01T00:00:00) and
  \<^verbatim>\<open>datetime.max\<close> (9999-12-31T23:59:59.999999).\<close>

datatype py_error = OverflowError

definition datetime_min :: int where
  "datetime_min = - 62135596800000000"

definition datetime_max :: int where
  "datetime_max = 253402300799999999"

text \<open>\<^verbatim>\<open>timedelta(minutes=m)\<close>, in microseconds.\<close>

definition timedelta_of_minutes :: "int \<Rightarrow> py_error + int" where
  "timedelta_of_minutes m =
     (let days = timedelta_minutes m div micros_per_day
      in if days < - 999999999 \<or> 999999999 < days then Inl OverflowError
         else Inr (timedelta_minutes m))"

text \<open>\<^verbatim>\<open>now + delta\<close> for a naive \<open>now\<close>.\<close>

definition naive_plus :: "int \<Rightarrow> int \<Rightarrow> py_error + datetime" where
  "naive_plus t delta =
     (if t + delta < datetime_min \<or> datetime_max < t + delta then Inl OverflowError
      else Inr (Naive (t + delta)))"

text \<open>\<^verbatim>\<open>get_due_content\<close>. \<open>now\<close> is the naive wall-clock reading of
  \<^verbatim>\<open>datetime.now()\<close>. The cutoff is computed before the loop and outside its \<^verbatim>\<open>try\<close>:
  an \<^verbatim>\<open>OverflowError\<close> there leaves the method.\<close>

definition get_due_content ::
  "(string \<Rightarrow> datetime option) \<Rightarrow> int \<Rightarrow> int \<Rightarrow> manager
     \<Rightarrow> py_error + (ref list \<times> ref list)" where
  "get_due_content fromisoformat now within_minutes m =
     (case timedelta_of_minutes within_minutes of
        Inl e \<Rightarrow> Inl e
      | Inr delta \<Rightarrow>
          (case naive_plus now delta of
             Inl e \<Rightarrow> Inl e
           | Inr cutoff \<Rightarrow>
               Inr (due_loop fromisoformat (objects m) (Naive now) cutoff (queue m))))"

text \<open>Sequences of operations on the manager.\<close>

datatype queue_op =
    AddContent ref
  | AddBatch "ref list"
  | RemoveContent string
  | RescheduleContent string datetime
  | MarkPosted ref string string

fun apply_op :: "(datetime \<Rightarrow> string) \<Rightarrow> queue_op \<Rightarrow> manager \<Rightarrow> manager" where
  "apply_op isoformat (AddContent c) m = add_content c m"
| "apply_op isoformat (AddBatch cs) m = add_batch cs m"
| "apply_op isoformat (RemoveContent cid) m = snd (remove_content cid m)"
| "apply_op isoformat (RescheduleContent cid t) m = snd (reschedule_content isoformat cid t m)"
| "apply_op isoformat (MarkPosted c post_id posted_at) m = mark_posted c post_id posted_at m"

fun apply_ops :: "(datetime \<Rightarrow> string) \<Rightarrow> queue_op list \<Rightarrow> manager \<Rightarrow> manager" where
  "apply_ops isoformat [] m = m"
| "apply_ops isoformat (x # xs) m = apply_ops isoformat xs (apply_op isoformat x m)"

text \<open>The invariants of the queue that the properties are about.\<close>

definition queue_sorted :: "manager \<Rightarrow> bool" where
  "queue_sorted m =
     sorted_wrt (\<lambda>a b. scheduled_time (objects m a) < scheduled_time (objects m b)
                     \<or> (scheduled_time (objects m a) = scheduled_time (objects m b)
                        \<and> priority (objects m b) \<le> priority (objects m a)))
       (queue m)"

definition queued_ids :: "manager \<Rightarrow> string list" where
  "queued_ids m = map (\<lambda>c. content_id (objects m c)) (queue m)"






subsection \<open>Social media publisher\<close>

text \<open>Truth value of an optional string: \<^verbatim>\<open>None\<close> and the empty string are false.\<close>

fun truthy :: "string option \<Rightarrow> bool" where
  "truthy None = False"
| "truthy (Some s) = (s \<noteq> [])"

text \<open>\<^verbatim>\<open>a or b\<close> on optional strings.\<close>

definition py_or :: "string option \<Rightarrow> string option \<Rightarrow> string option" where
  "py_or a b = (if truthy a then a else b)"

record PublishResult =
  success :: bool
  pr_platform :: string
  post_id :: "string option"
  error_message :: "string option"
  timestamp :: string
  pr_template_name :: string

text \<open>One entry of \<^verbatim>\<open>self.rate_limits\<close>. \<open>reset_time\<close> is a reading of
  \<^verbatim>\<open>time.time()\<close>, in seconds.\<close>

record rate_limit =
  remaining :: int
  reset_time :: real

text \<open>The dictionary that \<^verbatim>\<open>_record_publish\<close> appends to the publishing history.\<close>

record publish_record =
  rec_platform :: string
  rec_template_name :: string
  rec_post_id :: string
  rec_page_id :: "string option"
  rec_timestamp :: string

text \<open>What a call does to the outside: \<open>Sleep n\<close> is \<^verbatim>\<open>time.sleep(n)\<close>;
  \<open>FacebookPhoto message image page\<close> and \<open>FacebookText message link page\<close> are the
  calls of \<^verbatim>\<open>_post_facebook_photo\<close> and \<^verbatim>\<open>_post_facebook_text\<close>, which send the post
  to the Graph API.\<close>

datatype effect =
    Sleep nat
  | FacebookPhoto string string "string option"
  | FacebookText string string "string option"

text \<open>The publisher object, with the trace of its effects.\<close>

record publisher =
  fb_page_id :: "string option"
  fb_page_token :: "string option"
  ig_account_id :: "string option"
  ig_access_token :: "string option"
  rate_limits :: "string \<rightharpoonup> rate_limit"
  publishing_history :: "publish_record list"
  trace :: "effect list"

text \<open>The table inside \<^verbatim>\<open>_check_rate_limit\<close>, with \<^verbatim>\<open>.get(platform, 100)\<close>.\<close>

definition capacity :: "string \<Rightarrow> int" where
  "capacity p =
     (if p = ''facebook'' then 200
      else if p = ''instagram'' then 50
      else if p = ''threads'' then 100
      else 100)"

text \<open>\<^verbatim>\<open>_check_rate_limit\<close>. \<open>t1\<close> is the reading of \<^verbatim>\<open>time.time()\<close> that is compared with
  \<open>reset_time\<close>, \<open>t2\<close> the later reading from which the new window is computed.\<close>

definition check_rate_limit :: "string \<Rightarrow> real \<Rightarrow> real \<Rightarrow> publisher \<Rightarrow> bool \<times> publisher" where
  "check_rate_limit p t1 t2 s =
     (case rate_limits s p of
        None \<Rightarrow> (True, s)
      | Some limits \<Rightarrow>
          (let limits1 = (if t1 > reset_time limits
                          then \<lparr>remaining = capacity p, reset_time = t2 + 3600\<rparr>
                          else limits)
           in if remaining limits1 > 0
              then (True, s\<lparr>rate_limits := (rate_limits s)
                              (p \<mapsto> limits1\<lparr>remaining := remaining limits1 - 1\<rparr>)\<rparr>)
              else (False, s\<lparr>rate_limits := (rate_limits s)(p \<mapsto> limits1)\<rparr>)))"

text \<open>A run of calls of \<^verbatim>\<open>_check_rate_limit\<close> for one platform, one pair of clock
  readings per call; the answers in order, and the final state.\<close>

fun check_many :: "string \<Rightarrow> (real \<times> real) list \<Rightarrow> publisher \<Rightarrow> bool list \<times> publisher" where
  "check_many p [] s = ([], s)"
| "check_many p ((t1, t2) # ts) s =
     (let (ok, s1) = check_rate_limit p t1 t2 s;
          (oks, s2) = check_many p ts s1
      in (ok # oks, s2))"

text \<open>What the Graph API helper (\<^verbatim>\<open>_post_facebook_photo\<close> or \<^verbatim>\<open>_post_facebook_text\<close>)
  answers: \<^verbatim>\<open>{'success': True, 'post_id': id}\<close>, \<^verbatim>\<open>{'success': False, 'error': e}\<close>,
  or an exception with message \<open>e\<close>.\<close>

datatype api_outcome = ApiPosted string | ApiFailed string | ApiRaised string

text \<open>The surroundings of one publish call: the two clock readings of the rate check,
  the values of \<^verbatim>\<open>datetime.now().isoformat()\<close> for the result and for the history
  record, the file system, and the answer of the Graph API.\<close>

record env =
  clock1 :: real
  clock2 :: real
  now_iso :: string
  record_iso :: string
  file_exists :: "string \<Rightarrow> bool"
  graph_api :: api_outcome

definition failure :: "string \<Rightarrow> string \<Rightarrow> string \<Rightarrow> string \<Rightarrow> PublishResult" where
  "failure p msg ts name =
     \<lparr>success = False, pr_platform = p, post_id = None, error_message = Some msg,
      timestamp = ts, pr_template_name = name\<rparr>"

text \<open>\<^verbatim>\<open>image_path and Path(image_path).exists()\<close>.\<close>

definition image_present :: "env \<Rightarrow> string option \<Rightarrow> bool" where
  "image_present e img = (case img of
       None \<Rightarrow> False
     | Some path \<Rightarrow> path \<noteq> [] \<and> file_exists e path)"

text \<open>The rate check at the head of each publish method: when the check fails the
  method logs a warning and sleeps 60 seconds; there is no return in that branch.\<close>

definition rate_gate :: "string \<Rightarrow> env \<Rightarrow> publisher \<Rightarrow> publisher" where
  "rate_gate p e s =
     (let (ok, s1) = check_rate_limit p (clock1 e) (clock2 e) s
      in if \<not> ok then s1\<lparr>trace := trace s1 @ [Sleep 60]\<rparr> else s1)"

text \<open>\<^verbatim>\<open>publish_to_facebook\<close>.\<close>

definition publish_to_facebook ::
  "env \<Rightarrow> string \<Rightarrow> string \<Rightarrow> string option \<Rightarrow> string \<Rightarrow> string option \<Rightarrow> publisher
     \<Rightarrow> PublishResult \<times> publisher" where
  "publish_to_facebook e content lnk img name page s =
     (let target_page_id = py_or page (fb_page_id s)
      in if \<not> truthy target_page_id \<or> \<not> truthy (fb_page_token s)
         then (failure ''facebook'' ''Missing credentials'' (now_iso e) name, s)
         else
           (let s1 = rate_gate ''facebook'' e s;
                request = (case img of
                     Some path \<Rightarrow>
                       (if image_present e img
                        then FacebookPhoto content path target_page_id
                        else FacebookText content lnk target_page_id)
                   | None \<Rightarrow> FacebookText content lnk target_page_id);
                s2 = s1\<lparr>trace := trace s1 @ [request]\<rparr>
            in case graph_api e of
                 ApiPosted pid \<Rightarrow>
                   (\<lparr>success = True, pr_platform = ''facebook'', post_id = Some pid,
                     error_message = None, timestamp = now_iso e, pr_template_name = name\<rparr>,
                    s2\<lparr>publishing_history := publishing_history s2 @
                         [\<lparr>rec_platform = ''facebook'', rec_template_name = name,
                           rec_post_id = pid, rec_page_id = target_page_id,
                           rec_timestamp = record_iso e\<rparr>]\<rparr>)
               | ApiFailed err \<Rightarrow> (failure ''facebook'' err (now_iso e) name, s2)
               | ApiRaised err \<Rightarrow> (failure ''facebook'' err (now_iso e) name, s2)))"


text \<open>A run of \<^verbatim>\<open>publish_to_facebook\<close> calls on the default page, one environment and
  one post (content, link, image, template name) per call.\<close>

fun publish_all ::
  "(env \<times> string \<times> string \<times> string option \<times> string) list \<Rightarrow> publisher
     \<Rightarrow> PublishResult list \<times> publisher" where
  "publish_all [] s = ([], s)"
| "publish_all ((e, content, lnk, img, name) # rest) s =
     (let (r, s1) = publish_to_facebook e content lnk img name None s;
          (rs, s2) = publish_all rest s1
      in (r # rs, s2))"


subsection \<open>Smart scheduler\<close>

text \<open>\<^verbatim>\<open>template_scanner.TemplateMetadata\<close>.\<close>

record TemplateMetadata =
  tm_category :: string
  template_name :: string
  tm_tex_file :: string
  tm_pdf_file :: "string option"
  tm_plot_files :: "string list"
  tm_title :: string
  tm_author :: string
  tm_abstract :: string
  tm_packages :: "string list"
  tm_github_url :: string
  tm_cocalc_url :: string
  tm_has_pythontex :: bool
  tm_has_sagetex :: bool
  tm_has_knitr :: bool
  tm_file_size :: int
  tm_last_modified :: string
  tm_complexity_score :: int

text \<open>The dataclass \<^verbatim>\<open>QueuedPost\<close>.\<close>

record QueuedPost =
  qp_template :: TemplateMetadata
  qp_platform :: string
  qp_content :: string
  qp_hashtags :: "string list"
  qp_link :: string
  qp_image_path :: "string option"
  qp_alt_text :: "string option"
  qp_scheduled_time :: string
  qp_priority :: int
  qp_created_at :: string

text \<open>The scheduler: \<open>posts\<close> maps a reference to the post object it denotes,
  \<open>post_queue\<close> is \<^verbatim>\<open>self.queue\<close>, \<open>templates\<close> is \<^verbatim>\<open>self.scanner.templates\<close> (a
  dictionary from category to templates, in insertion order), \<open>recent_templates\<close> is
  \<^verbatim>\<open>self.recent_templates\<close>.\<close>

record scheduler =
  posts :: "ref \<Rightarrow> QueuedPost"
  post_queue :: "ref list"
  templates :: "(string \<times> TemplateMetadata list) list"
  recent_templates :: "string \<rightharpoonup> string list"

text \<open>What a call of a method of \<^verbatim>\<open>self.publisher\<close> does: it returns a result or it
  raises.\<close>

datatype 'a outcome = Returned 'a | Raised

text \<open>The three methods of \<^verbatim>\<open>self.publisher\<close> that \<^verbatim>\<open>publish_post\<close> calls, with the
  keyword arguments in the order of the source (content, link, image path, template
  name; Instagram without link).\<close>

record publisher_methods =
  to_facebook :: "string \<Rightarrow> string \<Rightarrow> string option \<Rightarrow> string \<Rightarrow> PublishResult outcome"
  to_threads :: "string \<Rightarrow> string \<Rightarrow> string option \<Rightarrow> string \<Rightarrow> PublishResult outcome"
  to_instagram :: "string \<Rightarrow> string option \<Rightarrow> string \<Rightarrow> PublishResult outcome"

text \<open>\<^verbatim>\<open>_reschedule_post\<close>: the post object is mutated in place; when parsing the old
  time raises, the exception is logged and nothing changes.\<close>

definition reschedule_post ::
  "(string \<Rightarrow> datetime option) \<Rightarrow> (datetime \<Rightarrow> string) \<Rightarrow> ref \<Rightarrow> scheduler \<Rightarrow> scheduler" where
  "reschedule_post fromisoformat isoformat p s =
     (case fromisoformat (qp_scheduled_time (posts s p)) of
        None \<Rightarrow> s
      | Some old_time \<Rightarrow>
          (let new_time = plus_micros old_time (timedelta_hours 1)
           in s\<lparr>posts := (posts s)
                  (p := (posts s p)\<lparr>qp_scheduled_time := isoformat new_time\<rparr>)\<rparr>))"

text \<open>The first part of \<^verbatim>\<open>publish_post\<close>: which method is called. \<open>None\<close> stands for
  the two early returns (Instagram without image path, unknown platform).\<close>

definition call_publisher :: "publisher_methods \<Rightarrow> QueuedPost \<Rightarrow> PublishResult outcome option" where
  "call_publisher pub post =
     (if qp_platform post = ''facebook''
      then Some (to_facebook pub (qp_content post) (qp_link post) (qp_image_path post)
                   (template_name (qp_template post)))
      else if qp_platform post = ''threads''
      then Some (to_threads pub (qp_content post) (qp_link post) (qp_image_path post)
                   (template_name (qp_template post)))
      else if qp_platform post = ''instagram''
      then (if \<not> truthy (qp_image_path post) then None
            else Some (to_instagram pub (qp_content post) (qp_image_path post)
                         (template_name (qp_template post))))
      else None)"

text \<open>\<^verbatim>\<open>publish_post\<close>; \<open>p\<close> is the reference of the post object passed in. The
  comparison \<^verbatim>\<open>p != post\<close> of the list comprehension is the field-wise one of the
  dataclass.\<close>

definition publish_post ::
  "(string \<Rightarrow> datetime option) \<Rightarrow> (datetime \<Rightarrow> string) \<Rightarrow> publisher_methods \<Rightarrow> ref
     \<Rightarrow> scheduler \<Rightarrow> bool \<times> scheduler" where
  "publish_post fromisoformat isoformat pub p s =
     (case call_publisher pub (posts s p) of
        None \<Rightarrow> (False, s)
      | Some Raised \<Rightarrow> (False, reschedule_post fromisoformat isoformat p s)
      | Some (Returned result) \<Rightarrow>
          (if success result
           then (True, s\<lparr>post_queue := filter (\<lambda>q. posts s q \<noteq> posts s p) (post_queue s)\<rparr>)
           else (False, reschedule_post fromisoformat isoformat p s)))"

text \<open>\<^verbatim>\<open>get_posts_due\<close>: the loop of \<^verbatim>\<open>get_due_content\<close>, with a bare \<^verbatim>\<open>except\<close> that does
  not log. The dispatcher calls it with a window of one minute; the cutoff then leaves
  the range of \<^verbatim>\<open>datetime\<close> only in the last minute of the year 9999, and the range is
  not modelled here.\<close>

definition get_posts_due ::
  "(string \<Rightarrow> datetime option) \<Rightarrow> int \<Rightarrow> int \<Rightarrow> scheduler \<Rightarrow> ref list" where
  "get_posts_due fromisoformat now within_minutes s =
     (let cutoff = plus_micros (Naive now) (timedelta_minutes within_minutes)
      in filter (\<lambda>p. check_due fromisoformat (Naive now) cutoff
                        (qp_scheduled_time (posts s p)) = Due)
           (post_queue s))"






text \<open>\<^verbatim>\<open>theme in category\<close> and \<^verbatim>\<open>category.startswith(theme)\<close>.\<close>

definition startswith :: "string \<Rightarrow> string \<Rightarrow> bool" where
  "startswith s t = (take (length t) s = t)"

definition contains :: "string \<Rightarrow> string \<Rightarrow> bool" where
  "contains t s = list_ex (\<lambda>i. startswith (drop i s) t) [0 ..< Suc (length s)]"

text \<open>\<^verbatim>\<open>for templates in self.scanner.templates.values(): candidates.extend(templates)\<close>.\<close>

definition all_templates :: "(string \<times> TemplateMetadata list) list \<Rightarrow> TemplateMetadata list" where
  "all_templates ts = concat (map snd ts)"

text \<open>The nested loop over categories and themes.\<close>

definition themed_templates ::
  "string list \<Rightarrow> (string \<times> TemplateMetadata list) list \<Rightarrow> TemplateMetadata list" where
  "themed_templates themes ts =
     concat (map (\<lambda>(category, tpls).
        concat (map (\<lambda>theme. if contains theme category \<or> startswith category theme
                           then tpls else []) themes)) ts)"

text \<open>The candidates before the recency filter.\<close>

definition theme_candidates ::
  "string list \<Rightarrow> (string \<times> TemplateMetadata list) list \<Rightarrow> TemplateMetadata list" where
  "theme_candidates themes ts =
     (let candidates = (if ''mixed'' \<in> set themes then all_templates ts
                        else themed_templates themes ts)
      in if candidates = [] then all_templates ts else candidates)"

text \<open>\<^verbatim>\<open>recent[-30:]\<close> of \<^verbatim>\<open>self.recent_templates.get(platform, [])\<close>.\<close>

definition recent_window :: "scheduler \<Rightarrow> string \<Rightarrow> string list" where
  "recent_window s p =
     (let recent = (case recent_templates s p of None \<Rightarrow> [] | Some r \<Rightarrow> r)
      in drop (length recent - 30) recent)"

text \<open>\<^verbatim>\<open>random.choice(candidates) if candidates else None\<close>; \<open>r\<close> is the random draw.\<close>

definition choice :: "nat \<Rightarrow> 'a list \<Rightarrow> 'a option" where
  "choice r xs = (if xs = [] then None else Some (xs ! (r mod length xs)))"

text \<open>\<^verbatim>\<open>_select_template_for_day\<close>.\<close>

definition select_template_for_day ::
  "nat \<Rightarrow> string list \<Rightarrow> string \<Rightarrow> scheduler \<Rightarrow> TemplateMetadata option \<times> scheduler" where
  "select_template_for_day r themes p s =
     (let candidates = filter (\<lambda>t. template_name t \<notin> set (recent_window s p))
                         (theme_candidates themes (templates s))
      in if candidates = []
         then (choice r (all_templates (templates s)),
               s\<lparr>recent_templates := (recent_templates s)(p \<mapsto> [])\<rparr>)
         else (choice r candidates, s))"

subsection \<open>Sample data\<close>

definition route_cocalc :: PageRoute where
  "route_cocalc = \<lparr>route_page_id = ''698630966948910'', route_page_name = ''CoCalc'',
     route_reason = ''All content'', route_priority = 10\<rparr>"

definition route_sagemath :: PageRoute where
  "route_sagemath = \<lparr>route_page_id = ''26593144945'', route_page_name = ''SageMath'',
     route_reason = ''Math content'', route_priority = 8\<rparr>"

text \<open>Instants are counted from 1970-01-01T00:00:00. The two functions below give the
  values of \<^verbatim>\<open>datetime.isoformat\<close> and \<^verbatim>\<open>datetime.fromisoformat\<close> on the instants and
  strings that occur in the examples; they are used in examples only.\<close>

definition sample_isoformat :: "datetime \<Rightarrow> string" where
  "sample_isoformat d =
     (if d = Naive 1735725600000000 then ''2025-01-01T10:00:00''
      else if d = Naive 1735729200000000 then ''2025-01-01T11:00:00''
      else if d = Naive 1735732800000000 then ''2025-01-01T12:00:00''
      else if d = Naive 1735812000000000 then ''2025-01-02T10:00:00''
      else [])"

definition sample_fromisoformat :: "string \<Rightarrow> datetime option" where
  "sample_fromisoformat s =
     (if s = ''2025-01-01T10:00:00'' then Some (Naive 1735725600000000)
      else if s = ''2025-01-01T11:00:00'' then Some (Naive 1735729200000000)
      else if s = ''2025-01-01T12:00:00'' then Some (Naive 1735732800000000)
      else if s = ''2025-01-02T10:00:00'' then Some (Naive 1735812000000000)
      else if s = ''2025-01-01T10:00:00+00:00'' then Some (Aware 1735725600000000 0)
      else None)"

definition sample_item :: "string \<Rightarrow> string \<Rightarrow> int \<Rightarrow> QueuedContent" where
  "sample_item cid t prio =
     \<lparr>content_id = cid, content_type = ''template'', page_id = ''698630966948910'',
      page_name = ''CoCalc'', platform = ''facebook'', content_text = ''text'',
      hashtags = [], link = ''https://cocalc.com'', image_path = None, alt_text = None,
      source_name = ''source'', category = ''mathematics'', scheduled_time = t,
      priority = prio, created_at = ''2025-01-01T00:00:00'', is_duplicate = False,
      duplicate_group_id = None\<rparr>"

text \<open>Four objects, at references 0 to 3; the objects at 1 and 3 have the same content
  id. Every other reference holds a fifth object.\<close>

definition sample_objects :: "ref \<Rightarrow> QueuedContent" where
  "sample_objects r =
     (if r = 0 then sample_item ''a'' ''2025-01-01T12:00:00'' 5
      else if r = 1 then sample_item ''b'' ''2025-01-01T10:00:00'' 5
      else if r = 2 then sample_item ''c'' ''2025-01-01T10:00:00'' 8
      else if r = 3 then sample_item ''b'' ''2025-01-01T11:00:00'' 7
      else sample_item ''z'' ''not a time'' 5)"

definition empty_manager :: manager where
  "empty_manager = \<lparr>objects = sample_objects, queue = [], posting_history = []\<rparr>"

text \<open>The publisher as \<^verbatim>\<open>__init__\<close> leaves it when the clock reads 1000, with
  credentials configured.\<close>

definition sample_publisher :: publisher where
  "sample_publisher =
     \<lparr>fb_page_id = Some ''698630966948910'', fb_page_token = Some ''token'',
      ig_account_id = Some ''17841400000000000'', ig_access_token = Some ''token'',
      rate_limits = [''facebook'' \<mapsto> \<lparr>remaining = 200, reset_time = 1000\<rparr>,
                     ''instagram'' \<mapsto> \<lparr>remaining = 50, reset_time = 1000\<rparr>,
                     ''threads'' \<mapsto> \<lparr>remaining = 100, reset_time = 1000\<rparr>],
      publishing_history = [], trace = []\<rparr>"

text \<open>The surroundings of an example publish call at clock reading \<open>t\<close>: no image
  file exists and the Graph API accepts the post under the id \<open>pid\<close>.\<close>

definition sample_env :: "real \<Rightarrow> string \<Rightarrow> env" where
  "sample_env t pid =
     \<lparr>clock1 = t, clock2 = t, now_iso = ''2025-01-01T10:00:00'',
      record_iso = ''2025-01-01T10:00:00'', file_exists = (\<lambda>path. False),
      graph_api = ApiPosted pid\<rparr>"

text \<open>A publisher with 3 Facebook requests left in the window that ends at 4600.\<close>

definition three_left :: publisher where
  "three_left = sample_publisher
     \<lparr>rate_limits := (rate_limits sample_publisher)
        (''facebook'' \<mapsto> \<lparr>remaining = 3, reset_time = 4600\<rparr>)\<rparr>"

text \<open>Four publish attempts within that window.\<close>

definition four_posts :: "(env \<times> string \<times> string \<times> string option \<times> string) list" where
  "four_posts =
     [(sample_env 1001 ''p1'', ''post 1'', ''https://cocalc.com/1'', None, ''template1''),
      (sample_env 1002 ''p2'', ''post 2'', ''https://cocalc.com/2'', None, ''template2''),
      (sample_env 1003 ''p3'', ''post 3'', ''https://cocalc.com/3'', None, ''template3''),
      (sample_env 1004 ''p4'', ''post 4'', ''https://cocalc.com/4'', None, ''template4'')]"

text \<open>The same publisher with the budget of the window used up.\<close>

definition none_left :: publisher where
  "none_left = sample_publisher
     \<lparr>rate_limits := (rate_limits sample_publisher)
        (''facebook'' \<mapsto> \<lparr>remaining = 0, reset_time = 4600\<rparr>)\<rparr>"

text \<open>Templates and posts of the examples.\<close>

definition sample_template :: "string \<Rightarrow> string \<Rightarrow> TemplateMetadata" where
  "sample_template cat name =
     \<lparr>tm_category = cat, template_name = name, tm_tex_file = name @ ''.tex'',
      tm_pdf_file = None, tm_plot_files = [], tm_title = name, tm_author = ''author'',
      tm_abstract = ''abstract'', tm_packages = [], tm_github_url = ''https://github.com'',
      tm_cocalc_url = ''https://cocalc.com'', tm_has_pythontex = False,
      tm_has_sagetex = True, tm_has_knitr = False, tm_file_size = 1000,
      tm_last_modified = ''2025-01-01T00:00:00'', tm_complexity_score = 3\<rparr>"

definition sample_post :: "string \<Rightarrow> string option \<Rightarrow> string \<Rightarrow> QueuedPost" where
  "sample_post plat img t =
     \<lparr>qp_template = sample_template ''mathematics'' ''algebra-basics'', qp_platform = plat,
      qp_content = ''content'', qp_hashtags = [], qp_link = ''https://cocalc.com'',
      qp_image_path = img, qp_alt_text = None, qp_scheduled_time = t, qp_priority = 5,
      qp_created_at = ''2025-01-01T00:00:00''\<rparr>"

text \<open>A scheduler whose queue holds a Facebook post (reference 0) and an Instagram post
  with an image path (reference 1), both scheduled at 10:00; every other reference
  denotes an Instagram post without image path; the template index has
  two categories; two templates were used recently on Facebook, all three on Threads.\<close>

definition sample_scheduler :: scheduler where
  "sample_scheduler =
     \<lparr>posts = (\<lambda>r. if r = 0 then sample_post ''facebook'' None ''2025-01-01T10:00:00''
                    else if r = 1
                    then sample_post ''instagram'' (Some ''/tmp/plot.png'') ''2025-01-01T10:00:00''
                    else sample_post ''instagram'' None ''2025-01-01T10:00:00''),
      post_queue = [0, 1],
      templates = [(''mathematics'', [sample_template ''mathematics'' ''algebra-basics'',
                                      sample_template ''mathematics'' ''number-theory'']),
                   (''quantum-physics'', [sample_template ''quantum-physics'' ''qubits''])],
      recent_templates = [''facebook'' \<mapsto> [''qubits'', ''algebra-basics''],
                          ''threads'' \<mapsto> [''qubits'', ''algebra-basics'', ''number-theory'']]\<rparr>"

text \<open>Publishers of the examples: one whose every call reports the given result, one
  whose every call raises, and one whose Instagram method is \<^verbatim>\<open>publish_to_instagram\<close>.\<close>

definition constant_publisher :: "PublishResult outcome \<Rightarrow> publisher_methods" where
  "constant_publisher out =
     \<lparr>to_facebook = (\<lambda>content lnk img name. out),
      to_threads = (\<lambda>content lnk img name. out),
      to_instagram = (\<lambda>content img name. out)\<rparr>"

definition sample_success :: PublishResult where
  "sample_success =
     \<lparr>success = True, pr_platform = ''facebook'', post_id = Some ''p1'',
      error_message = None, timestamp = ''2025-01-01T10:00:01'',
      pr_template_name = ''algebra-basics''\<rparr>"


definition sample_failure :: PublishResult where
  "sample_failure = failure ''facebook'' ''500 Server Error'' ''2025-01-01T10:00:01'' ''algebra-basics''"

text \<open>The themes of Tuesday in \<^verbatim>\<open>DAY_THEMES\<close>.\<close>

definition tuesday_themes :: "string list" where
  "tuesday_themes = [''mathematics'', ''numerical-analysis'', ''algebra'']"



section \<open>Properties\<close>

subsection \<open>Staggered schedules of duplicate content\<close>

lemma plus_micros_plus: "plus_micros (plus_micros d a) b = plus_micros d (a + b)"
  by (cases d) simp_all

lemma plus_micros_zero: "plus_micros d 0 = d"
  by (cases d) simp_all

lemma wall_plus_micros: "wall (plus_micros d a) = wall d + a"
  by (cases d) simp_all

lemma length_stagger: "length (stagger gap n cur i rs) = length rs"
  by (induction rs arbitrary: cur i) simp_all

lemma stagger_nth:
  "i + length rs = n \<Longrightarrow> k < length rs \<Longrightarrow>
   stagger gap n cur i rs ! k =
     \<lparr>entry_page_id = route_page_id (rs ! k),
      entry_page_name = route_page_name (rs ! k),
      entry_scheduled_time = plus_micros cur (timedelta_days (int k * gap)),
      entry_is_original = Some (i + k = 0)\<rparr>"
proof (induction rs arbitrary: cur i k)
  case Nil
  then show ?case by simp
next
  case (Cons r rest)
  show ?case
  proof (cases k)
    case 0
    then show ?thesis by (simp add: timedelta_days_def plus_micros_zero)
  next
    case (Suc j)
    with Cons.prems have j: "j < length rest" and more: "int i < int n - 1"
      by auto
    from Cons.prems have "Suc i + length rest = n" by simp
    from Cons.IH [OF this j]
    show ?thesis using Suc more
      by (simp add: plus_micros_plus timedelta_days_def algebra_simps)
  qed
qed

lemma sorted_routes_desc:
  "sorted_wrt (\<lambda>a b. route_priority b \<le> route_priority a) (sorted_routes routes)"
proof -
  have "sorted (map (\<lambda>r. - route_priority r) (sorted_routes routes))"
    by (simp add: sorted_routes_def)
  then show ?thesis
    by (simp add: sorted_map sorted_wrt_iff_nth_less)
qed

lemma abs_gap: "i \<noteq> j \<Longrightarrow> (g::int) \<le> \<bar>int i * g - int j * g\<bar>"
proof -
  assume "i \<noteq> j"
  then have "1 \<le> \<bar>int i - int j\<bar>" by simp
  then have "\<bar>g\<bar> * 1 \<le> \<bar>g\<bar> * \<bar>int i - int j\<bar>"
    by (intro mult_left_mono) simp_all
  then have "\<bar>g\<bar> \<le> \<bar>(int i - int j) * g\<bar>" by (simp add: abs_mult mult.commute)
  then show ?thesis by (simp add: algebra_simps)
qed

lemma day_of_plus_days: "day_of (plus_micros d (timedelta_days k)) = day_of d + k"
  by (simp add: day_of_def wall_plus_micros timedelta_days_def micros_per_day_def)


text \<open>
  Claim C1. For every list of routes with more than one element, every gap and every
  base time \<open>T\<close>, \<^verbatim>\<open>schedule_duplicate_content\<close> returns one entry per route, in the
  order of the routes sorted by descending priority; the entry at position \<open>i\<close>
  (counted from 0) is scheduled at \<open>T\<close> plus \<open>i * min_day_gap\<close> days; the result carries
  the one group id generated in the call, for all its entries; and any two entries are
  at least \<open>min_day_gap\<close> days apart, in calendar days and in elapsed time.
\<close>

theorem schedule_duplicate_content_staggered:
  assumes "1 < length routes"
  shows "(let S = schedule_duplicate_content gap uuid routes T;
              rs = sorted_routes routes
          in mset rs = mset routes
           \<and> sorted_wrt (\<lambda>a b. route_priority b \<le> route_priority a) rs
           \<and> length (schedules S) = length routes
           \<and> (\<forall>i < length routes.
                 schedules S ! i =
                   \<lparr>entry_page_id = route_page_id (rs ! i),
                    entry_page_name = route_page_name (rs ! i),
                    entry_scheduled_time = plus_micros T (timedelta_days (int i * gap)),
                    entry_is_original = Some (i = 0)\<rparr>)
           \<and> ds_duplicate_group_id S = uuid
           \<and> ds_min_day_gap S = gap
           \<and> (\<forall>i < length routes. \<forall>j < length routes. i \<noteq> j \<longrightarrow>
                 gap \<le> \<bar>day_of (entry_scheduled_time (schedules S ! i))
                         - day_of (entry_scheduled_time (schedules S ! j))\<bar>
               \<and> timedelta_days gap
                     \<le> \<bar>wall (entry_scheduled_time (schedules S ! i))
                         - wall (entry_scheduled_time (schedules S ! j))\<bar>))"
proof -
  define S where "S = schedule_duplicate_content gap uuid routes T"
  define rs where "rs = sorted_routes routes"
  have len: "length rs = length routes"
    by (simp add: rs_def sorted_routes_def)
  have S: "schedules S = stagger gap (length rs) T 0 rs"
    "ds_duplicate_group_id S = uuid" "ds_min_day_gap S = gap"
    using assms by (simp_all add: S_def rs_def schedule_duplicate_content_def)
  have perm: "mset rs = mset routes"
    by (simp add: rs_def sorted_routes_def)
  have desc: "sorted_wrt (\<lambda>a b. route_priority b \<le> route_priority a) rs"
    unfolding rs_def by (rule sorted_routes_desc)
  have slen: "length (schedules S) = length routes"
    by (simp add: S length_stagger len)
  have nth: "schedules S ! i =
      \<lparr>entry_page_id = route_page_id (rs ! i),
       entry_page_name = route_page_name (rs ! i),
       entry_scheduled_time = plus_micros T (timedelta_days (int i * gap)),
       entry_is_original = Some (i = 0)\<rparr>" if "i < length routes" for i
    using that stagger_nth [of 0 rs "length rs" i gap T] by (simp add: S len)
  have time: "entry_scheduled_time (schedules S ! i) = plus_micros T (timedelta_days (int i * gap))"
    if "i < length routes" for i
    using nth [OF that] by simp
  have apart: "gap \<le> \<bar>day_of (entry_scheduled_time (schedules S ! i))
                         - day_of (entry_scheduled_time (schedules S ! j))\<bar>
      \<and> timedelta_days gap
            \<le> \<bar>wall (entry_scheduled_time (schedules S ! i))
                - wall (entry_scheduled_time (schedules S ! j))\<bar>"
    if "i < length routes" "j < length routes" "i \<noteq> j" for i j
  proof -
    have g: "gap \<le> \<bar>int i * gap - int j * gap\<bar>"
      using that(3) by (rule abs_gap)
    have di: "day_of (entry_scheduled_time (schedules S ! i)) = day_of T + int i * gap"
      and dj: "day_of (entry_scheduled_time (schedules S ! j)) = day_of T + int j * gap"
      by (simp_all add: time that day_of_plus_days)
    have wi: "wall (entry_scheduled_time (schedules S ! i)) = wall T + int i * gap * micros_per_day"
      and wj: "wall (entry_scheduled_time (schedules S ! j)) = wall T + int j * gap * micros_per_day"
      by (simp_all add: time that wall_plus_micros timedelta_days_def)
    have "\<bar>wall (entry_scheduled_time (schedules S ! i))
            - wall (entry_scheduled_time (schedules S ! j))\<bar>
          = \<bar>(int i * gap - int j * gap) * micros_per_day\<bar>"
      by (simp add: wi wj algebra_simps)
    also have "\<dots> = \<bar>int i * gap - int j * gap\<bar> * micros_per_day"
    proof -
      have "0 \<le> micros_per_day" by (simp add: micros_per_day_def)
      then show ?thesis by (simp only: abs_mult abs_of_nonneg)
    qed
    finally have "timedelta_days gap
        \<le> \<bar>wall (entry_scheduled_time (schedules S ! i))
            - wall (entry_scheduled_time (schedules S ! j))\<bar>"
      using g by (simp add: timedelta_days_def micros_per_day_def)
    moreover have "gap \<le> \<bar>day_of (entry_scheduled_time (schedules S ! i))
                         - day_of (entry_scheduled_time (schedules S ! j))\<bar>"
      using g by (simp add: di dj)
    ultimately show ?thesis by simp
  qed
  show ?thesis
    unfolding Let_def S_def [symmetric] rs_def [symmetric]
    using perm desc slen nth S(2,3) apart by blast
qed

theorem schedule_duplicate_content_staggered_witness:
  "1 < length [route_sagemath, route_cocalc]
   \<and> map entry_page_name
        (schedules (schedule_duplicate_content 2 ''g1'' [route_sagemath, route_cocalc] (Naive 0)))
       = [''CoCalc'', ''SageMath'']
   \<and> map entry_scheduled_time
        (schedules (schedule_duplicate_content 2 ''g1'' [route_sagemath, route_cocalc] (Naive 0)))
       = [Naive 0, Naive 172800000000]
   \<and> 2 \<le> \<bar>day_of (entry_scheduled_time
              (schedules (schedule_duplicate_content 2 ''g1'' [route_sagemath, route_cocalc] (Naive 0)) ! 0))
          - day_of (entry_scheduled_time
              (schedules (schedule_duplicate_content 2 ''g1'' [route_sagemath, route_cocalc] (Naive 0)) ! 1))\<bar>"
proof -
  let ?S = "schedule_duplicate_content 2 ''g1'' [route_sagemath, route_cocalc] (Naive 0)"
  have h: "1 < length [route_sagemath, route_cocalc]" by simp
  have sr: "sorted_routes [route_sagemath, route_cocalc] = [route_cocalc, route_sagemath]"
    by (simp add: sorted_routes_def route_cocalc_def route_sagemath_def)
  have names: "map entry_page_name (schedules ?S) = [''CoCalc'', ''SageMath'']"
    and times: "map entry_scheduled_time (schedules ?S) = [Naive 0, Naive 172800000000]"
    by (simp_all add: schedule_duplicate_content_def sr timedelta_days_def micros_per_day_def)
      (simp_all add: route_cocalc_def route_sagemath_def)
  have "\<forall>i < length [route_sagemath, route_cocalc].
        \<forall>j < length [route_sagemath, route_cocalc]. i \<noteq> j \<longrightarrow>
      2 \<le> \<bar>day_of (entry_scheduled_time (schedules ?S ! i))
            - day_of (entry_scheduled_time (schedules ?S ! j))\<bar>"
    using schedule_duplicate_content_staggered [OF h, of 2 "''g1''" "Naive 0"]
    unfolding Let_def by blast
  then have "2 \<le> \<bar>day_of (entry_scheduled_time (schedules ?S ! 0))
            - day_of (entry_scheduled_time (schedules ?S ! 1))\<bar>"
    by simp
  with h names times show ?thesis by simp
qed

subsection \<open>The queue stays sorted\<close>

lemma queue_key_le:
  "queue_key x \<le> queue_key y \<longleftrightarrow>
     scheduled_time x < scheduled_time y
     \<or> (scheduled_time x = scheduled_time y \<and> priority y \<le> priority x)"
  by (auto simp: queue_key_def less_eq_prod_def)

lemma queue_sorted_iff:
  "queue_sorted m \<longleftrightarrow> sorted (map (\<lambda>r. queue_key (objects m r)) (queue m))"
  by (simp add: queue_sorted_def sorted_wrt_map queue_key_le)

lemma queue_sorted_sort_queue: "queue_sorted (sort_queue m)"
  by (simp add: queue_sorted_iff sort_queue_def)

lemma queue_sorted_add_content: "queue_sorted (add_content c m)"
  by (simp add: add_content_def queue_sorted_sort_queue)

lemma queue_sorted_add_batch: "queue_sorted (add_batch cs m)"
  by (simp add: add_batch_def queue_sorted_sort_queue)

lemma queue_sorted_remove_content:
  "queue_sorted m \<Longrightarrow> queue_sorted (snd (remove_content cid m))"
  by (simp add: queue_sorted_def remove_content_def Let_def sorted_wrt_filter)

lemma queue_sorted_reschedule_content:
  "queue_sorted m \<Longrightarrow> queue_sorted (snd (reschedule_content isoformat cid t m))"
  by (simp add: reschedule_content_def queue_sorted_sort_queue split: option.splits)

lemma queue_sorted_mark_posted:
  "queue_sorted m \<Longrightarrow> queue_sorted (mark_posted c pid ts m)"
  using queue_sorted_remove_content [of m "content_id (objects m c)"]
  by (simp add: mark_posted_def Let_def queue_sorted_def)

lemma queue_sorted_apply_op:
  "queue_sorted m \<Longrightarrow> queue_sorted (apply_op isoformat x m)"
  by (cases x)
    (simp_all add: queue_sorted_add_content queue_sorted_add_batch
      queue_sorted_remove_content queue_sorted_reschedule_content queue_sorted_mark_posted)

lemma queue_sorted_apply_ops:
  "queue_sorted m \<Longrightarrow> queue_sorted (apply_ops isoformat ops m)"
  by (induction ops arbitrary: m) (simp_all add: queue_sorted_apply_op)

text \<open>
  Claim C2. After any sequence of \<^verbatim>\<open>add_content\<close>, \<^verbatim>\<open>add_batch\<close>,
  \<^verbatim>\<open>reschedule_content\<close> and \<^verbatim>\<open>remove_content\<close> operations (and \<^verbatim>\<open>mark_posted\<close>),
  started on the empty queue or on any queue that is in order, iterating the queue
  yields the items in non-decreasing order of their \<open>scheduled_time\<close> strings, and
  items with equal \<open>scheduled_time\<close> in non-increasing order of priority. The order of
  \<open>scheduled_time\<close> is the one the source sorts by: the order of the ISO strings.
\<close>

theorem queue_sort_invariant:
  "queue_sorted (apply_ops isoformat ops (m\<lparr>queue := []\<rparr>))
   \<and> (queue_sorted m \<longrightarrow> queue_sorted (apply_ops isoformat ops m))"
proof -
  have "queue_sorted (m\<lparr>queue := []\<rparr>)"
    by (simp add: queue_sorted_def)
  then show ?thesis
    by (simp add: queue_sorted_apply_ops)
qed


theorem queue_sort_invariant_witness:
  "queue_sorted (empty_manager\<lparr>queue := [1, 0]\<rparr>)
   \<and> queue_sorted (apply_ops sample_isoformat
         [AddContent 3, AddBatch [2, 1], RescheduleContent ''c'' (Naive 1735812000000000),
          RemoveContent ''a'']
         (empty_manager\<lparr>queue := [1, 0]\<rparr>))"
proof -
  have h: "queue_sorted (empty_manager\<lparr>queue := [1, 0]\<rparr>)"
    by code_simp
  with queue_sort_invariant [of sample_isoformat
         "[AddContent 3, AddBatch [2, 1], RescheduleContent ''c'' (Naive 1735812000000000),
          RemoveContent ''a'']" "empty_manager\<lparr>queue := [1, 0]\<rparr>"]
  show ?thesis by blast
qed

subsection \<open>Due checks\<close>

lemma check_due_naive:
  "check_due fromisoformat (Naive now) (Naive cutoff) s =
     (case fromisoformat s of
        Some (Naive t) \<Rightarrow> if now \<le> t \<and> t \<le> cutoff then Due else NotDue
      | _ \<Rightarrow> Failed)"
  by (auto simp: check_due_def split: option.splits datetime.splits bool.splits)



lemma check_due_Due:
  "check_due fromisoformat (Naive now) (Naive cutoff) s = Due
     \<longleftrightarrow> (\<exists>t. fromisoformat s = Some (Naive t) \<and> now \<le> t \<and> t \<le> cutoff)"
  by (simp add: check_due_naive split: option.splits datetime.splits)

lemma get_posts_due_iff:
  "p \<in> set (get_posts_due fromisoformat now w s) \<longleftrightarrow>
     p \<in> set (post_queue s) \<and>
     (\<exists>t. fromisoformat (qp_scheduled_time (posts s p)) = Some (Naive t)
          \<and> now \<le> t \<and> t \<le> now + timedelta_minutes w)"
  by (auto simp: get_posts_due_def check_due_Due)

subsection \<open>Due content\<close>

lemma due_loop_filter:
  "due_loop fromisoformat obj now cutoff q =
     (filter (\<lambda>c. check_due fromisoformat now cutoff (scheduled_time (obj c)) = Due) q,
      filter (\<lambda>c. check_due fromisoformat now cutoff (scheduled_time (obj c)) = Failed) q)"
  by (induction q) (auto split: due_check.splits)

lemma due_loop_window:
  "due_loop fromisoformat obj (Naive now) (Naive cutoff) q =
     (filter (\<lambda>c. case fromisoformat (scheduled_time (obj c)) of
                     Some (Naive t) \<Rightarrow> now \<le> t \<and> t \<le> cutoff
                   | _ \<Rightarrow> False) q,
      filter (\<lambda>c. case fromisoformat (scheduled_time (obj c)) of
                     Some (Naive t) \<Rightarrow> False
                   | _ \<Rightarrow> True) q)"
proof -
  have due: "(check_due fromisoformat (Naive now) (Naive cutoff) s = Due)
      = (case fromisoformat s of
           Some (Naive t) \<Rightarrow> now \<le> t \<and> t \<le> cutoff
         | _ \<Rightarrow> False)" for s
    by (simp add: check_due_naive split: option.splits datetime.splits)
  have failed: "(check_due fromisoformat (Naive now) (Naive cutoff) s = Failed)
      = (case fromisoformat s of Some (Naive t) \<Rightarrow> False | _ \<Rightarrow> True)" for s
    by (simp add: check_due_naive split: option.splits datetime.splits)
  show ?thesis
    by (simp add: due_loop_filter due failed)
qed

lemma cutoff_in_range:
  assumes "datetime_min \<le> now" and "now \<le> datetime_max"
    and "datetime_min \<le> now + timedelta_minutes w" and "now + timedelta_minutes w \<le> datetime_max"
  shows "timedelta_of_minutes w = Inr (timedelta_minutes w)"
proof -
  have "- 315537897600000000 \<le> timedelta_minutes w" and "timedelta_minutes w \<le> 315537897600000000"
    using assms by (simp_all add: datetime_min_def datetime_max_def)
  then have "(- 315537897600000000) div 86400000000 \<le> timedelta_minutes w div 86400000000"
    and "timedelta_minutes w div 86400000000 \<le> 315537897600000000 div (86400000000::int)"
    by (simp_all add: zdiv_mono1)
  then have "- 999999999 \<le> timedelta_minutes w div 86400000000"
    and "timedelta_minutes w div 86400000000 \<le> 999999999"
    by simp_all
  then show ?thesis
    by (simp add: timedelta_of_minutes_def micros_per_day_def Let_def)
qed

lemma cutoff_out_of_range:
  assumes "datetime_min \<le> now" and "now \<le> datetime_max"
    and "now + timedelta_minutes w < datetime_min \<or> datetime_max < now + timedelta_minutes w"
  shows "get_due_content fromisoformat now w m = Inl OverflowError"
  using assms
  by (auto simp: get_due_content_def naive_plus_def timedelta_of_minutes_def Let_def
      split: sum.splits)

text \<open>
  Claim C3 as stated fails: the cutoff \<^verbatim>\<open>now + timedelta(minutes=within_minutes)\<close> is
  computed before the \<^verbatim>\<open>try\<close>. At 2025-01-01T10:00:00 a window of 5000000000 minutes
  ends after the year 9999, and the call raises \<^verbatim>\<open>OverflowError\<close>.
\<close>

theorem get_due_content_counterexample:
  "get_due_content sample_fromisoformat 1735725600000000 5000000000
     (empty_manager\<lparr>queue := [1, 2, 3, 0, 7]\<rparr>) = Inl OverflowError"
  by (simp add: get_due_content_def naive_plus_def timedelta_of_minutes_def timedelta_minutes_def
      micros_per_day_def datetime_min_def datetime_max_def Let_def)

text \<open>
  Claim C3, amended. For every queue, every clock reading \<open>now\<close> and every window \<open>w\<close>
  for which \<open>now + w\<close> minutes is a representable \<^verbatim>\<open>datetime\<close>, \<^verbatim>\<open>get_due_content\<close> does not
  raise and returns exactly the queued items whose \<open>scheduled_time\<close> parses (to a naive
  instant \<open>t\<close>, the kind that can be compared with the clock) and satisfies
  \<open>now \<le> t \<le> now + w\<close> minutes, in queue order. An item whose \<open>scheduled_time\<close> does
  not parse, or parses to an instant that cannot be compared with the clock, is
  skipped and logged, and no other item is logged. For every other window the call
  raises \<^verbatim>\<open>OverflowError\<close> before it looks at the queue.
\<close>

theorem get_due_content_window:
  assumes "datetime_min \<le> now" and "now \<le> datetime_max"
  shows "get_due_content fromisoformat now w m =
     (if datetime_min \<le> now + timedelta_minutes w \<and> now + timedelta_minutes w \<le> datetime_max
      then Inr
        (filter (\<lambda>c. case fromisoformat (scheduled_time (objects m c)) of
                        Some (Naive t) \<Rightarrow> now \<le> t \<and> t \<le> now + timedelta_minutes w
                      | _ \<Rightarrow> False) (queue m),
         filter (\<lambda>c. case fromisoformat (scheduled_time (objects m c)) of
                        Some (Naive t) \<Rightarrow> False
                      | _ \<Rightarrow> True) (queue m))
      else Inl OverflowError)"
proof (cases "datetime_min \<le> now + timedelta_minutes w \<and> now + timedelta_minutes w \<le> datetime_max")
  case True
  then have td: "timedelta_of_minutes w = Inr (timedelta_minutes w)"
    using assms cutoff_in_range by blast
  have np: "naive_plus now (timedelta_minutes w) = Inr (Naive (now + timedelta_minutes w))"
    using True by (auto simp: naive_plus_def)
  show ?thesis
    using True by (simp add: get_due_content_def td np due_loop_window)
next
  case False
  then have "now + timedelta_minutes w < datetime_min \<or> datetime_max < now + timedelta_minutes w"
    by auto
  with assms have "get_due_content fromisoformat now w m = Inl OverflowError"
    by (rule cutoff_out_of_range)
  with False show ?thesis by simp
qed

theorem get_due_content_window_witness:
  "datetime_min \<le> 1735725600000000
   \<and> 1735725600000000 \<le> datetime_max
   \<and> datetime_min \<le> 1735725600000000 + timedelta_minutes 60
   \<and> 1735725600000000 + timedelta_minutes 60 \<le> datetime_max
   \<and> get_due_content sample_fromisoformat 1735725600000000 60
        (empty_manager\<lparr>queue := [1, 2, 3, 0, 7]\<rparr>) = Inr ([1, 2, 3], [7])"
proof -
  have h1: "datetime_min \<le> 1735725600000000" and h2: "1735725600000000 \<le> datetime_max"
    and h3: "datetime_min \<le> 1735725600000000 + timedelta_minutes 60"
    and h4: "1735725600000000 + timedelta_minutes 60 \<le> datetime_max"
    by (simp_all add: datetime_min_def datetime_max_def timedelta_minutes_def)
  have due: "filter (\<lambda>c. case sample_fromisoformat
                  (scheduled_time (objects (empty_manager\<lparr>queue := [1, 2, 3, 0, 7]\<rparr>) c)) of
                        Some (Naive t) \<Rightarrow> 1735725600000000 \<le> t
                          \<and> t \<le> 1735725600000000 + timedelta_minutes 60
                      | _ \<Rightarrow> False) (queue (empty_manager\<lparr>queue := [1, 2, 3, 0, 7]\<rparr>))
      = [1, 2, 3]"
    and logged: "filter (\<lambda>c. case sample_fromisoformat
                  (scheduled_time (objects (empty_manager\<lparr>queue := [1, 2, 3, 0, 7]\<rparr>) c)) of
                        Some (Naive t) \<Rightarrow> False
                      | _ \<Rightarrow> True) (queue (empty_manager\<lparr>queue := [1, 2, 3, 0, 7]\<rparr>))
      = [7]"
    by code_simp+
  from get_due_content_window [OF h1 h2, of sample_fromisoformat 60
      "empty_manager\<lparr>queue := [1, 2, 3, 0, 7]\<rparr>"] h3 h4
  have "get_due_content sample_fromisoformat 1735725600000000 60
        (empty_manager\<lparr>queue := [1, 2, 3, 0, 7]\<rparr>) = Inr ([1, 2, 3], [7])"
    by (simp only: due logged if_True simp_thms)
  with h1 h2 h3 h4 show ?thesis by blast
qed

subsection \<open>One rate check\<close>

lemma capacity_pos: "0 < capacity p"
  by (simp add: capacity_def)

lemma check_rate_limit_reset:
  assumes "rate_limits s p = Some l" and "reset_time l < t1"
  shows "check_rate_limit p t1 t2 s =
     (True, s\<lparr>rate_limits := (rate_limits s)
                (p \<mapsto> \<lparr>remaining = capacity p - 1, reset_time = t2 + 3600\<rparr>)\<rparr>)"
  using assms capacity_pos [of p] by (simp add: check_rate_limit_def)

lemma check_rate_limit_consume:
  assumes "rate_limits s p = Some l" and "t1 \<le> reset_time l" and "0 < remaining l"
  shows "check_rate_limit p t1 t2 s =
     (True, s\<lparr>rate_limits := (rate_limits s)(p \<mapsto> l\<lparr>remaining := remaining l - 1\<rparr>)\<rparr>)"
  using assms by (simp add: check_rate_limit_def)

lemma check_rate_limit_refuse:
  assumes "rate_limits s p = Some l" and "t1 \<le> reset_time l" and "remaining l \<le> 0"
  shows "check_rate_limit p t1 t2 s = (False, s)"
proof -
  have "(rate_limits s)(p \<mapsto> l) = rate_limits s"
    using assms(1) by (rule map_upd_triv)
  with assms show ?thesis by (simp add: check_rate_limit_def)
qed

subsection \<open>Publishing with an exhausted budget\<close>

lemma four_posts_success:
  "map success (fst (publish_all four_posts three_left)) = [True, True, True, True]"
  by (simp add: four_posts_def three_left_def sample_publisher_def sample_env_def
      publish_to_facebook_def rate_gate_def check_rate_limit_def py_or_def Let_def)

lemma four_posts_trace:
  "trace (snd (publish_all four_posts three_left)) =
     [FacebookText ''post 1'' ''https://cocalc.com/1'' (Some ''698630966948910''),
      FacebookText ''post 2'' ''https://cocalc.com/2'' (Some ''698630966948910''),
      FacebookText ''post 3'' ''https://cocalc.com/3'' (Some ''698630966948910''),
      Sleep 60,
      FacebookText ''post 4'' ''https://cocalc.com/4'' (Some ''698630966948910'')]"
  by (simp add: four_posts_def three_left_def sample_publisher_def sample_env_def
      publish_to_facebook_def rate_gate_def check_rate_limit_def py_or_def Let_def)

lemma four_posts_history:
  "map rec_post_id (publishing_history (snd (publish_all four_posts three_left)))
     = [''p1'', ''p2'', ''p3'', ''p4'']"
  by (simp add: four_posts_def three_left_def sample_publisher_def sample_env_def
      publish_to_facebook_def rate_gate_def check_rate_limit_def py_or_def Let_def)


text \<open>
  Claim C4 as stated fails: with 3 requests left in the window, four publish attempts
  within the window are all sent to the Graph API and all succeed; the fourth is sent
  after a sleep of 60 seconds, it is not refused.
\<close>

theorem facebook_throttle_counterexample:
  "map success (fst (publish_all four_posts three_left)) = [True, True, True, True]
   \<and> trace (snd (publish_all four_posts three_left)) =
     [FacebookText ''post 1'' ''https://cocalc.com/1'' (Some ''698630966948910''),
      FacebookText ''post 2'' ''https://cocalc.com/2'' (Some ''698630966948910''),
      FacebookText ''post 3'' ''https://cocalc.com/3'' (Some ''698630966948910''),
      Sleep 60,
      FacebookText ''post 4'' ''https://cocalc.com/4'' (Some ''698630966948910'')]
   \<and> map rec_post_id (publishing_history (snd (publish_all four_posts three_left)))
     = [''p1'', ''p2'', ''p3'', ''p4'']"
  using four_posts_success four_posts_trace four_posts_history by simp

lemma rate_gate_exhausted:
  assumes "rate_limits s p = Some l" and "remaining l \<le> 0" and "clock1 e \<le> reset_time l"
  shows "rate_gate p e s = s\<lparr>trace := trace s @ [Sleep 60]\<rparr>"
  using check_rate_limit_refuse [OF assms(1) assms(3) assms(2), of "clock2 e"]
  by (simp add: rate_gate_def)

text \<open>
  Claim C4, amended. When the Facebook budget is exhausted within the current window,
  \<^verbatim>\<open>_check_rate_limit\<close> returns false; \<^verbatim>\<open>publish_to_facebook\<close> then sleeps a fixed 60
  seconds and performs the publish all the same, without checking again and without
  consuming budget: its result is successful exactly when the Graph API accepts the
  post. In particular, with 3 requests left in a window, 4 sequential publish attempts
  within the window yield 4 published posts, the 4th after the 60-second sleep.
\<close>

theorem publish_to_facebook_exhausted:
  assumes "truthy (py_or page (fb_page_id s))" and "truthy (fb_page_token s)"
    and "rate_limits s ''facebook'' = Some l"
    and "remaining l \<le> 0" and "clock1 e \<le> reset_time l"
  shows "fst (check_rate_limit ''facebook'' (clock1 e) (clock2 e) s) = False
    \<and> trace (snd (publish_to_facebook e content lnk img name page s))
         = trace s @ [Sleep 60,
             (case img of
                Some path \<Rightarrow> if image_present e img
                   then FacebookPhoto content path (py_or page (fb_page_id s))
                   else FacebookText content lnk (py_or page (fb_page_id s))
              | None \<Rightarrow> FacebookText content lnk (py_or page (fb_page_id s)))]
    \<and> success (fst (publish_to_facebook e content lnk img name page s))
         = (\<exists>pid. graph_api e = ApiPosted pid)
    \<and> rate_limits (snd (publish_to_facebook e content lnk img name page s)) = rate_limits s
    \<and> map success (fst (publish_all four_posts three_left)) = [True, True, True, True]
    \<and> trace (snd (publish_all four_posts three_left)) =
       [FacebookText ''post 1'' ''https://cocalc.com/1'' (Some ''698630966948910''),
        FacebookText ''post 2'' ''https://cocalc.com/2'' (Some ''698630966948910''),
        FacebookText ''post 3'' ''https://cocalc.com/3'' (Some ''698630966948910''),
        Sleep 60,
        FacebookText ''post 4'' ''https://cocalc.com/4'' (Some ''698630966948910'')]"
proof -
  have gate: "rate_gate ''facebook'' e s = s\<lparr>trace := trace s @ [Sleep 60]\<rparr>"
    using assms(3,4,5) by (rule rate_gate_exhausted)
  have refuse: "fst (check_rate_limit ''facebook'' (clock1 e) (clock2 e) s) = False"
    using check_rate_limit_refuse [OF assms(3) assms(5) assms(4), of "clock2 e"] by simp
  have tr: "trace (snd (publish_to_facebook e content lnk img name page s))
         = trace s @ [Sleep 60,
             (case img of
                Some path \<Rightarrow> if image_present e img
                   then FacebookPhoto content path (py_or page (fb_page_id s))
                   else FacebookText content lnk (py_or page (fb_page_id s))
              | None \<Rightarrow> FacebookText content lnk (py_or page (fb_page_id s)))]"
    using assms(1,2)
    by (simp add: publish_to_facebook_def gate Let_def split: api_outcome.splits option.splits)
  have su: "success (fst (publish_to_facebook e content lnk img name page s))
         = (\<exists>pid. graph_api e = ApiPosted pid)"
    using assms(1,2)
    by (simp add: publish_to_facebook_def gate Let_def failure_def split: api_outcome.splits)
  have rl: "rate_limits (snd (publish_to_facebook e content lnk img name page s)) = rate_limits s"
    using assms(1,2)
    by (simp add: publish_to_facebook_def gate Let_def split: api_outcome.splits)
  show ?thesis
    using refuse tr su rl four_posts_success four_posts_trace by simp
qed

theorem publish_to_facebook_exhausted_witness:
  "truthy (py_or None (fb_page_id none_left))
   \<and> truthy (fb_page_token none_left)
   \<and> rate_limits none_left ''facebook'' = Some \<lparr>remaining = 0, reset_time = 4600\<rparr>
   \<and> remaining \<lparr>remaining = 0, reset_time = 4600\<rparr> \<le> 0
   \<and> clock1 (sample_env 1004 ''p4'') \<le> reset_time \<lparr>remaining = 0, reset_time = 4600\<rparr>
   \<and> trace (snd (publish_to_facebook (sample_env 1004 ''p4'') ''post 4''
         ''https://cocalc.com/4'' None ''template4'' None none_left))
       = [Sleep 60, FacebookText ''post 4'' ''https://cocalc.com/4'' (Some ''698630966948910'')]
   \<and> success (fst (publish_to_facebook (sample_env 1004 ''p4'') ''post 4''
         ''https://cocalc.com/4'' None ''template4'' None none_left))"
proof -
  have h1: "truthy (py_or None (fb_page_id none_left))"
    and h2: "truthy (fb_page_token none_left)"
    and h3: "rate_limits none_left ''facebook'' = Some \<lparr>remaining = 0, reset_time = 4600\<rparr>"
    by (simp_all add: none_left_def sample_publisher_def py_or_def)
  have h4: "remaining \<lparr>remaining = 0, reset_time = 4600\<rparr> \<le> 0"
    by simp
  have h5: "clock1 (sample_env 1004 ''p4'') \<le> reset_time \<lparr>remaining = 0, reset_time = 4600\<rparr>"
    by (simp add: sample_env_def)
  have v: "py_or None (fb_page_id none_left) = Some ''698630966948910''"
    "trace none_left = []" "graph_api (sample_env 1004 ''p4'') = ApiPosted ''p4''"
    by (simp_all add: none_left_def sample_publisher_def py_or_def sample_env_def)
  from publish_to_facebook_exhausted [OF h1 h2 h3 h4 h5,
      of "''post 4''" "''https://cocalc.com/4''" None "''template4''"]
    h1 h2 h3 h4 h5
  show ?thesis by (simp add: v)
qed

subsection \<open>Rate windows\<close>

lemma check_many_in_window:
  assumes "rate_limits s p = Some l" and "0 \<le> remaining l"
    and "\<forall>(a, b) \<in> set ts. a \<le> reset_time l"
  shows "fst (check_many p ts s) = map (\<lambda>i. int i < remaining l) [0 ..< length ts]
    \<and> rate_limits (snd (check_many p ts s)) p
        = Some (l\<lparr>remaining := max 0 (remaining l - int (length ts))\<rparr>)"
  using assms
proof (induction ts arbitrary: s l)
  case Nil
  then show ?case by simp
next
  case (Cons c ts)
  obtain a b where c: "c = (a, b)" by (cases c)
  from Cons.prems c have a: "a \<le> reset_time l" by simp
  show ?case
  proof (cases "0 < remaining l")
    case True
    let ?l1 = "l\<lparr>remaining := remaining l - 1\<rparr>"
    let ?s1 = "s\<lparr>rate_limits := (rate_limits s)(p \<mapsto> ?l1)\<rparr>"
    have step: "check_rate_limit p a b s = (True, ?s1)"
      using Cons.prems(1) a True by (rule check_rate_limit_consume)
    have ih: "fst (check_many p ts ?s1) = map (\<lambda>i. int i < remaining ?l1) [0 ..< length ts]
      \<and> rate_limits (snd (check_many p ts ?s1)) p
          = Some (?l1\<lparr>remaining := max 0 (remaining ?l1 - int (length ts))\<rparr>)"
      using Cons.prems True by (intro Cons.IH) auto
    have shift: "map (\<lambda>i. int i < remaining l) [0 ..< Suc (length ts)]
        = True # map (\<lambda>i. int i < remaining l - 1) [0 ..< length ts]"
      using True by (auto simp: upt_conv_Cons map_Suc_upt [symmetric] simp del: upt_Suc)
    show ?thesis
      using ih step shift by (auto simp: c diff_diff_eq split: prod.splits)
  next
    case False
    with Cons.prems have zero: "remaining l = 0" by simp
    have step: "check_rate_limit p a b s = (False, s)"
      using Cons.prems(1) a by (rule check_rate_limit_refuse) (simp add: zero)
    have ih: "fst (check_many p ts s) = map (\<lambda>i. int i < remaining l) [0 ..< length ts]
      \<and> rate_limits (snd (check_many p ts s)) p
          = Some (l\<lparr>remaining := max 0 (remaining l - int (length ts))\<rparr>)"
      using Cons.prems by (intro Cons.IH) auto
    have shift: "map (\<lambda>i. int i < remaining l) [0 ..< Suc (length ts)]
        = False # map (\<lambda>i. int i < remaining l) [0 ..< length ts]"
      by (auto simp: zero upt_conv_Cons map_Suc_upt [symmetric] simp del: upt_Suc)
    show ?thesis
      using ih step shift by (auto simp: c zero split: prod.splits)
  qed
qed


lemma map_const_replicate: "(\<forall>x \<in> set xs. f x = c) \<Longrightarrow> map f xs = replicate (length xs) c"
  by (induction xs) auto

lemma map_less_upt:
  "map (\<lambda>i. int i < int k) [0 ..< k + n] = replicate k True @ replicate n False"
proof -
  have "[0 ..< k + n] = [0 ..< k] @ [k ..< k + n]"
    by (rule upt_add_eq_append) simp
  moreover have "map (\<lambda>i. int i < int k) [0 ..< k] = replicate k True"
    using map_const_replicate [of "[0 ..< k]" "\<lambda>i. int i < int k" True] by simp
  moreover have "map (\<lambda>i. int i < int k) [k ..< k + n] = replicate n False"
    using map_const_replicate [of "[k ..< k + n]" "\<lambda>i. int i < int k" False] by simp
  ultimately show ?thesis by simp
qed

text \<open>
  Claim C5. For every platform \<open>p\<close> that has a budget (an entry in \<open>rate_limits\<close>),
  with capacity \<open>C = capacity p\<close>: let a call of \<^verbatim>\<open>_check_rate_limit\<close> come after
  \<open>reset_time\<close> has passed (clock readings \<open>t1\<close>, \<open>t2\<close>), so that it opens a window, and
  let \<open>C - 1 + n\<close> further calls follow before the new \<open>reset_time = t2 + 3600\<close>. Then
  exactly the first \<open>C\<close> calls return true and all \<open>n\<close> further calls return false,
  and the remaining count is left at 0, whatever \<open>n\<close> is. The first call after the
  clock passes that \<open>reset_time\<close> (readings \<open>t3\<close>, \<open>t4\<close>) returns true again: it
  restores the allowance to \<open>C\<close>, of which it consumes one itself, and starts the
  window that ends at \<open>t4 + 3600\<close>, one hour later.
\<close>

theorem rate_limit_window:
  assumes "rate_limits s p = Some l"
    and "reset_time l < t1"
    and "\<forall>(a, b) \<in> set ts. a \<le> t2 + 3600"
    and "length ts = nat (capacity p) - 1 + n"
    and "t2 + 3600 < t3"
  shows "fst (check_many p ((t1, t2) # ts) s)
           = replicate (nat (capacity p)) True @ replicate n False
    \<and> rate_limits (snd (check_many p ((t1, t2) # ts) s)) p
           = Some \<lparr>remaining = 0, reset_time = t2 + 3600\<rparr>
    \<and> fst (check_rate_limit p t3 t4 (snd (check_many p ((t1, t2) # ts) s))) = True
    \<and> rate_limits (snd (check_rate_limit p t3 t4 (snd (check_many p ((t1, t2) # ts) s)))) p
           = Some \<lparr>remaining = capacity p - 1, reset_time = t4 + 3600\<rparr>"
proof -
  have "capacity p = int (Suc (nat (capacity p) - 1))"
    using capacity_pos [of p] by arith
  then obtain k where cap: "capacity p = int (Suc k)" ..
  have natcap: "nat (capacity p) = Suc k" by (simp add: cap)
  have len: "length ts = k + n" using assms(4) by (simp add: natcap)
  let ?l1 = "\<lparr>remaining = int k, reset_time = t2 + 3600\<rparr>"
  let ?s1 = "s\<lparr>rate_limits := (rate_limits s)(p \<mapsto> ?l1)\<rparr>"
  have first: "check_rate_limit p t1 t2 s = (True, ?s1)"
    using check_rate_limit_reset [OF assms(1,2), of t2] by (simp add: cap)
  have l1: "rate_limits ?s1 p = Some ?l1" by simp
  have nonneg: "0 \<le> remaining ?l1" by simp
  have inwin: "\<forall>(a, b) \<in> set ts. a \<le> reset_time ?l1" using assms(3) by simp
  note rest = check_many_in_window [OF l1 nonneg inwin]
  have answers: "fst (check_many p ts ?s1) = replicate k True @ replicate n False"
    using rest map_less_upt [of k n] by (simp add: len)
  have final: "rate_limits (snd (check_many p ts ?s1)) p
      = Some \<lparr>remaining = 0, reset_time = t2 + 3600\<rparr>"
    using rest by (simp add: len)
  have run: "check_many p ((t1, t2) # ts) s
      = (True # fst (check_many p ts ?s1), snd (check_many p ts ?s1))"
    by (simp add: first split: prod.splits)
  have late: "reset_time \<lparr>remaining = 0, reset_time = t2 + 3600\<rparr> < t3"
    using assms(5) by simp
  note again = check_rate_limit_reset [OF final late, of t4]
  show ?thesis
    unfolding run fst_conv snd_conv again natcap
    by (simp add: answers final cap)
qed


theorem rate_limit_window_witness:
  "rate_limits sample_publisher ''instagram'' = Some \<lparr>remaining = 50, reset_time = 1000\<rparr>
   \<and> reset_time \<lparr>remaining = 50, reset_time = 1000\<rparr> < (1001::real)
   \<and> list_all (\<lambda>(a, b). a \<le> 1001 + 3600) (replicate 50 (1002::real, 1002::real))
   \<and> length (replicate 50 (1002::real, 1002::real)) = nat (capacity ''instagram'') - 1 + 1
   \<and> (1001::real) + 3600 < 5000
   \<and> fst (check_many ''instagram'' ((1001, 1001) # replicate 50 (1002, 1002)) sample_publisher)
        = replicate 50 True @ [False]
   \<and> rate_limits (snd (check_many ''instagram'' ((1001, 1001) # replicate 50 (1002, 1002))
          sample_publisher)) ''instagram''
        = Some \<lparr>remaining = 0, reset_time = 4601\<rparr>
   \<and> rate_limits (snd (check_rate_limit ''instagram'' 5000 5000
          (snd (check_many ''instagram'' ((1001, 1001) # replicate 50 (1002, 1002))
             sample_publisher)))) ''instagram''
        = Some \<lparr>remaining = 49, reset_time = 8600\<rparr>"
proof -
  have h1: "rate_limits sample_publisher ''instagram'' = Some \<lparr>remaining = 50, reset_time = 1000\<rparr>"
    by (simp add: sample_publisher_def)
  have h2: "reset_time \<lparr>remaining = 50, reset_time = 1000\<rparr> < (1001::real)"
    by simp
  have h3: "\<forall>(a, b) \<in> set (replicate 50 (1002::real, 1002::real)). a \<le> 1001 + 3600"
    by simp
  have h4: "length (replicate 50 (1002::real, 1002::real)) = nat (capacity ''instagram'') - 1 + 1"
    by (simp add: capacity_def)
  have h5: "(1001::real) + 3600 < 5000"
    by simp
  have c: "nat (capacity ''instagram'') = 50" "capacity ''instagram'' - 1 = 49"
    by (simp_all add: capacity_def)
  from rate_limit_window [OF h1 h2 h3 h4 h5, of 5000] h1 h2 h3 h4 h5
  show ?thesis by (simp add: c list_all_iff)
qed

subsection \<open>Content ids of the queue\<close>

lemma objects_sort_queue: "objects (sort_queue m) = objects m"
  and history_sort_queue: "posting_history (sort_queue m) = posting_history m"
  by (simp_all add: sort_queue_def)

lemma mset_queue_sort_queue: "mset (queue (sort_queue m)) = mset (queue m)"
  by (simp add: sort_queue_def)

lemma mset_ids_sort_queue: "mset (queued_ids (sort_queue m)) = mset (queued_ids m)"
proof -
  have "mset (map (\<lambda>c. content_id (objects m c)) (queue (sort_queue m)))
      = image_mset (\<lambda>c. content_id (objects m c)) (mset (queue (sort_queue m)))"
    by simp
  then show ?thesis
    by (simp add: queued_ids_def objects_sort_queue mset_queue_sort_queue)
qed

lemma distinct_ids_sort_queue: "distinct (queued_ids (sort_queue m)) = distinct (queued_ids m)"
  using mset_ids_sort_queue [of m] by (rule mset_eq_imp_distinct_iff)


lemma ids_remove_content:
  "queued_ids (snd (remove_content cid m)) = filter (\<lambda>i. i \<noteq> cid) (queued_ids m)"
  by (simp add: remove_content_def queued_ids_def Let_def filter_map comp_def)

lemma find_content_Some:
  "find_content obj cid q = Some c \<Longrightarrow> c \<in> set q \<and> content_id (obj c) = cid"
  by (induction q) (auto split: if_splits)

lemma ids_reschedule_object:
  "queued_ids (m\<lparr>objects := (objects m)(c := (objects m c)\<lparr>scheduled_time := t\<rparr>)\<rparr>) = queued_ids m"
  by (simp add: queued_ids_def)

lemma distinct_ids_reschedule:
  "distinct (queued_ids (snd (reschedule_content isoformat cid t m))) = distinct (queued_ids m)"
  by (simp add: reschedule_content_def distinct_ids_sort_queue ids_reschedule_object
      split: option.splits)

lemma ids_mark_posted:
  "queued_ids (mark_posted c pid ts m)
     = filter (\<lambda>i. i \<noteq> content_id (objects m c)) (queued_ids m)"
  using ids_remove_content [of "content_id (objects m c)" m]
  by (simp add: mark_posted_def Let_def queued_ids_def remove_content_def)

subsection \<open>One dispatch attempt\<close>

lemma reschedule_post_parsed:
  "fromisoformat (qp_scheduled_time (posts s p)) = Some old \<Longrightarrow>
   reschedule_post fromisoformat isoformat p s =
     s\<lparr>posts := (posts s)(p := (posts s p)
          \<lparr>qp_scheduled_time := isoformat (plus_micros old (timedelta_hours 1))\<rparr>)\<rparr>"
  by (simp add: reschedule_post_def)

lemma publish_post_failed:
  assumes "call_publisher pub (posts s p) = Some out"
    and "out = Raised \<or> (\<exists>r. out = Returned r \<and> \<not> success r)"
  shows "publish_post fromisoformat isoformat pub p s
           = (False, reschedule_post fromisoformat isoformat p s)"
  using assms by (auto simp: publish_post_def)

lemma publish_post_succeeded:
  assumes "call_publisher pub (posts s p) = Some (Returned r)" and "success r"
  shows "publish_post fromisoformat isoformat pub p s
           = (True, s\<lparr>post_queue := filter (\<lambda>q. posts s q \<noteq> posts s p) (post_queue s)\<rparr>)"
  using assms by (simp add: publish_post_def)

subsection \<open>Failed and successful dispatch\<close>

text \<open>
  Claim C6. Let a post of the queue be due and let \<^verbatim>\<open>publish_post\<close> call a publish
  method for it. When the call raises or its result reports failure, the post is not
  removed from the queue; its \<open>scheduled_time\<close> becomes the ISO string of the instant
  one hour (3600000000 microseconds) after the instant the old string parses to; every
  other field of the post, and every other post, is unchanged. When the result
  reports success, every queue entry equal to the post is removed, so the post is no
  longer in the queue.
\<close>

theorem publish_post_outcome:
  assumes "p \<in> set (get_posts_due fromisoformat now w s)"
    and "call_publisher pub (posts s p) = Some out"
  shows "((out = Raised \<or> (\<exists>r. out = Returned r \<and> \<not> success r)) \<longrightarrow>
            (\<exists>t. fromisoformat (qp_scheduled_time (posts s p)) = Some (Naive t)
               \<and> publish_post fromisoformat isoformat pub p s
                   = (False, s\<lparr>posts := (posts s)(p := (posts s p)
                        \<lparr>qp_scheduled_time := isoformat (Naive (t + 3600000000))\<rparr>)\<rparr>))
            \<and> post_queue (snd (publish_post fromisoformat isoformat pub p s)) = post_queue s
            \<and> p \<in> set (post_queue (snd (publish_post fromisoformat isoformat pub p s)))
            \<and> (posts (snd (publish_post fromisoformat isoformat pub p s)) p)
                 \<lparr>qp_scheduled_time := qp_scheduled_time (posts s p)\<rparr> = posts s p
            \<and> (\<forall>q. q \<noteq> p \<longrightarrow>
                 posts (snd (publish_post fromisoformat isoformat pub p s)) q = posts s q))
       \<and> ((\<exists>r. out = Returned r \<and> success r) \<longrightarrow>
            publish_post fromisoformat isoformat pub p s
              = (True, s\<lparr>post_queue := filter (\<lambda>q. posts s q \<noteq> posts s p) (post_queue s)\<rparr>)
            \<and> p \<notin> set (post_queue (snd (publish_post fromisoformat isoformat pub p s))))"
proof -
  from assms(1) obtain t where inq: "p \<in> set (post_queue s)"
    and t: "fromisoformat (qp_scheduled_time (posts s p)) = Some (Naive t)"
    by (auto simp: get_posts_due_iff)
  let ?s' = "s\<lparr>posts := (posts s)(p := (posts s p)
                \<lparr>qp_scheduled_time := isoformat (Naive (t + 3600000000))\<rparr>)\<rparr>"
  have re: "reschedule_post fromisoformat isoformat p s = ?s'"
    using t reschedule_post_parsed [of fromisoformat s p "Naive t" isoformat]
    by (simp add: timedelta_hours_def)
  have fail: "publish_post fromisoformat isoformat pub p s = (False, ?s')"
    if "out = Raised \<or> (\<exists>r. out = Returned r \<and> \<not> success r)"
    using publish_post_failed [OF assms(2) that, of fromisoformat isoformat] by (simp add: re)
  have ok: "publish_post fromisoformat isoformat pub p s
              = (True, s\<lparr>post_queue := filter (\<lambda>q. posts s q \<noteq> posts s p) (post_queue s)\<rparr>)"
    if "\<exists>r. out = Returned r \<and> success r"
    using that assms(2) publish_post_succeeded [of pub s p _ fromisoformat isoformat] by auto
  show ?thesis
  proof (intro conjI impI)
    assume f: "out = Raised \<or> (\<exists>r. out = Returned r \<and> \<not> success r)"
    show "\<exists>t. fromisoformat (qp_scheduled_time (posts s p)) = Some (Naive t)
               \<and> publish_post fromisoformat isoformat pub p s
                   = (False, s\<lparr>posts := (posts s)(p := (posts s p)
                        \<lparr>qp_scheduled_time := isoformat (Naive (t + 3600000000))\<rparr>)\<rparr>)"
      using t fail [OF f] by blast
    show "post_queue (snd (publish_post fromisoformat isoformat pub p s)) = post_queue s"
      by (simp add: fail [OF f])
    show "p \<in> set (post_queue (snd (publish_post fromisoformat isoformat pub p s)))"
      by (simp add: fail [OF f] inq)
    show "(posts (snd (publish_post fromisoformat isoformat pub p s)) p)
                 \<lparr>qp_scheduled_time := qp_scheduled_time (posts s p)\<rparr> = posts s p"
      by (simp add: fail [OF f])
    show "\<forall>q. q \<noteq> p \<longrightarrow>
                 posts (snd (publish_post fromisoformat isoformat pub p s)) q = posts s q"
      by (simp add: fail [OF f])
  next
    assume g: "\<exists>r. out = Returned r \<and> success r"
    show "publish_post fromisoformat isoformat pub p s
              = (True, s\<lparr>post_queue := filter (\<lambda>q. posts s q \<noteq> posts s p) (post_queue s)\<rparr>)"
      by (rule ok [OF g])
    show "p \<notin> set (post_queue (snd (publish_post fromisoformat isoformat pub p s)))"
      by (simp add: ok [OF g])
  qed
qed


theorem publish_post_outcome_witness:
  "0 \<in> set (get_posts_due sample_fromisoformat 1735725570000000 1 sample_scheduler)
   \<and> call_publisher (constant_publisher (Returned sample_failure)) (posts sample_scheduler 0)
        = Some (Returned sample_failure)
   \<and> \<not> success sample_failure
   \<and> publish_post sample_fromisoformat sample_isoformat
         (constant_publisher (Returned sample_failure)) 0 sample_scheduler
        = (False, sample_scheduler\<lparr>posts := (posts sample_scheduler)
              (0 := sample_post ''facebook'' None ''2025-01-01T11:00:00'')\<rparr>)
   \<and> call_publisher (constant_publisher (Returned sample_success)) (posts sample_scheduler 0)
        = Some (Returned sample_success)
   \<and> success sample_success
   \<and> publish_post sample_fromisoformat sample_isoformat
         (constant_publisher (Returned sample_success)) 0 sample_scheduler
        = (True, sample_scheduler\<lparr>post_queue := [1]\<rparr>)"
proof -
  have due: "0 \<in> set (get_posts_due sample_fromisoformat 1735725570000000 1 sample_scheduler)"
    by code_simp
  have c1: "call_publisher (constant_publisher (Returned sample_failure)) (posts sample_scheduler 0)
        = Some (Returned sample_failure)"
    and c2: "call_publisher (constant_publisher (Returned sample_success)) (posts sample_scheduler 0)
        = Some (Returned sample_success)"
    by (simp_all add: call_publisher_def constant_publisher_def sample_scheduler_def sample_post_def)
  have f: "\<not> success sample_failure" and g: "success sample_success"
    by (simp_all add: sample_failure_def failure_def sample_success_def)
  have parse: "fromisoformat_at = Some (Naive 1735725600000000)"
    if "fromisoformat_at = sample_fromisoformat (qp_scheduled_time (posts sample_scheduler 0))"
    for fromisoformat_at
    using that by (simp add: sample_scheduler_def sample_post_def sample_fromisoformat_def)
  have fmt: "sample_isoformat (Naive 1735729200000000) = ''2025-01-01T11:00:00''"
    by (simp add: sample_isoformat_def)
  have upd: "(posts sample_scheduler 0)\<lparr>qp_scheduled_time := ''2025-01-01T11:00:00''\<rparr>
      = sample_post ''facebook'' None ''2025-01-01T11:00:00''"
    by (simp add: sample_scheduler_def sample_post_def)
  have flt: "filter (\<lambda>q. posts sample_scheduler q \<noteq> posts sample_scheduler 0)
      (post_queue sample_scheduler) = [1]"
    by (simp add: sample_scheduler_def sample_post_def)
  from publish_post_outcome [OF due c1, of sample_isoformat] f parse [OF refl]
  have r1: "publish_post sample_fromisoformat sample_isoformat
         (constant_publisher (Returned sample_failure)) 0 sample_scheduler
        = (False, sample_scheduler\<lparr>posts := (posts sample_scheduler)
              (0 := sample_post ''facebook'' None ''2025-01-01T11:00:00'')\<rparr>)"
    by (auto simp: fmt upd)
  from publish_post_outcome [OF due c2, of sample_isoformat] g
  have r2: "publish_post sample_fromisoformat sample_isoformat
         (constant_publisher (Returned sample_success)) 0 sample_scheduler
        = (True, sample_scheduler\<lparr>post_queue := [1]\<rparr>)"
    by (auto simp: flt)
  from due c1 c2 f g r1 r2 show ?thesis by blast
qed

subsection \<open>Marking content as posted\<close>












subsection \<open>Uniqueness of content ids\<close>

text \<open>
  Claim C8 as stated fails: \<^verbatim>\<open>add_content\<close> and \<^verbatim>\<open>add_batch\<close> accept an item whose
  content id is already queued; two different objects with the same content id are
  then in the queue.
\<close>

theorem content_id_uniqueness_counterexample:
  "distinct (queued_ids (add_content 1 empty_manager))
   \<and> queue (add_content 3 (add_content 1 empty_manager)) = [1, 3]
   \<and> content_id (objects empty_manager 1) = content_id (objects empty_manager 3)
   \<and> objects empty_manager 1 \<noteq> objects empty_manager 3
   \<and> \<not> distinct (queued_ids (add_content 3 (add_content 1 empty_manager)))
   \<and> distinct (queued_ids empty_manager)
   \<and> \<not> distinct (queued_ids (add_batch [1, 3] empty_manager))"
  by code_simp

text \<open>
  Claim C8, amended. The queue does not enforce uniqueness of content ids.
  \<^verbatim>\<open>add_content\<close> keeps the queued content ids pairwise different exactly when they
  were so before and the id of the added item is not queued yet; \<^verbatim>\<open>add_batch\<close> exactly
  when the ids of the queue followed by those of the batch are pairwise different.
  \<^verbatim>\<open>remove_content\<close>, \<^verbatim>\<open>reschedule_content\<close> and \<^verbatim>\<open>mark_posted\<close> preserve uniqueness for
  every input.
\<close>

theorem content_id_uniqueness_preserved:
  "(distinct (queued_ids (add_content c m))
      \<longleftrightarrow> distinct (queued_ids m) \<and> content_id (objects m c) \<notin> set (queued_ids m))
   \<and> (distinct (queued_ids (add_batch cs m))
      \<longleftrightarrow> distinct (queued_ids m @ map (\<lambda>c. content_id (objects m c)) cs))
   \<and> (distinct (queued_ids m) \<longrightarrow> distinct (queued_ids (snd (remove_content cid m))))
   \<and> (distinct (queued_ids m)
        \<longrightarrow> distinct (queued_ids (snd (reschedule_content isoformat cid t m))))
   \<and> (distinct (queued_ids m) \<longrightarrow> distinct (queued_ids (mark_posted c pid posted_at m)))"
proof -
  have a: "distinct (queued_ids (add_content c m))
      \<longleftrightarrow> distinct (queued_ids m) \<and> content_id (objects m c) \<notin> set (queued_ids m)"
    by (simp add: add_content_def distinct_ids_sort_queue) (auto simp: queued_ids_def)
  have b: "distinct (queued_ids (add_batch cs m))
      \<longleftrightarrow> distinct (queued_ids m @ map (\<lambda>c. content_id (objects m c)) cs)"
    by (simp add: add_batch_def distinct_ids_sort_queue) (simp add: queued_ids_def)
  show ?thesis
    using a b by (simp add: ids_remove_content distinct_ids_reschedule ids_mark_posted)
qed

theorem content_id_uniqueness_preserved_witness:
  "distinct (queued_ids (empty_manager\<lparr>queue := [1, 0]\<rparr>))
   \<and> content_id (objects (empty_manager\<lparr>queue := [1, 0]\<rparr>) 2)
        \<notin> set (queued_ids (empty_manager\<lparr>queue := [1, 0]\<rparr>))
   \<and> distinct (queued_ids (add_content 2 (empty_manager\<lparr>queue := [1, 0]\<rparr>)))
   \<and> distinct (queued_ids (snd (remove_content ''a'' (empty_manager\<lparr>queue := [1, 0]\<rparr>))))
   \<and> distinct (queued_ids (snd (reschedule_content sample_isoformat ''a''
                  (Naive 1735725600000000) (empty_manager\<lparr>queue := [1, 0]\<rparr>))))
   \<and> distinct (queued_ids (mark_posted 1 ''post'' ''2025-01-01T10:00:05''
                  (empty_manager\<lparr>queue := [1, 0]\<rparr>)))"
proof -
  have h: "distinct (queued_ids (empty_manager\<lparr>queue := [1, 0]\<rparr>))"
    and n: "content_id (objects (empty_manager\<lparr>queue := [1, 0]\<rparr>) 2)
        \<notin> set (queued_ids (empty_manager\<lparr>queue := [1, 0]\<rparr>))"
    by code_simp+
  from content_id_uniqueness_preserved [of 2 "empty_manager\<lparr>queue := [1, 0]\<rparr>" "[]" "''a''"
      sample_isoformat "Naive 1735725600000000" "''post''" "''2025-01-01T10:00:05''"] h n
  have "distinct (queued_ids (add_content 2 (empty_manager\<lparr>queue := [1, 0]\<rparr>)))"
    and "distinct (queued_ids (snd (remove_content ''a'' (empty_manager\<lparr>queue := [1, 0]\<rparr>))))"
    and "distinct (queued_ids (snd (reschedule_content sample_isoformat ''a''
                  (Naive 1735725600000000) (empty_manager\<lparr>queue := [1, 0]\<rparr>))))"
    by blast+
  moreover from content_id_uniqueness_preserved [of 1 "empty_manager\<lparr>queue := [1, 0]\<rparr>" "[]" "''a''"
      sample_isoformat "Naive 1735725600000000" "''post''" "''2025-01-01T10:00:05''"] h
  have "distinct (queued_ids (mark_posted 1 ''post'' ''2025-01-01T10:00:05''
                  (empty_manager\<lparr>queue := [1, 0]\<rparr>)))"
    by blast
  ultimately show ?thesis using h n by blast
qed

subsection \<open>Template selection\<close>

lemma choice_mem: "xs \<noteq> [] \<Longrightarrow> \<exists>x. choice r xs = Some x \<and> x \<in> set xs"
  by (simp add: choice_def)

lemma themed_subset: "set (themed_templates themes ts) \<subseteq> set (all_templates ts)"
  by (auto simp: themed_templates_def all_templates_def split: if_splits)

lemma theme_candidates_subset: "set (theme_candidates themes ts) \<subseteq> set (all_templates ts)"
  using themed_subset [of themes ts] by (auto simp: theme_candidates_def Let_def)

lemma recent_window_suffix:
  "length (recent_window s p) \<le> 30
   \<and> (\<exists>older. (case recent_templates s p of None \<Rightarrow> [] | Some r \<Rightarrow> r)
                 = older @ recent_window s p)"
proof -
  let ?recent = "case recent_templates s p of None \<Rightarrow> [] | Some r \<Rightarrow> r"
  have w: "recent_window s p = drop (length ?recent - 30) ?recent"
    by (simp add: recent_window_def Let_def)
  have "?recent = take (length ?recent - 30) ?recent @ recent_window s p"
    by (simp add: w)
  moreover have "length (recent_window s p) \<le> 30"
    by (simp add: w)
  ultimately show ?thesis by blast
qed

text \<open>
  Claim C9. For every theme list, platform, random draw and scheduler state: when at
  least one candidate template (a template matching the themes; any template when
  the themes contain \<open>mixed\<close> or match nothing) has a name outside the last 30
  recently used names of the platform, \<^verbatim>\<open>_select_template_for_day\<close> returns such a
  candidate and changes nothing. When every candidate is within that window, the
  recent list of the platform is cleared and the choice is made from the full
  template pool; it returns a template of the pool and not \<^verbatim>\<open>None\<close> whenever there
  was a candidate at all. The window is the last at most 30 entries of the recent
  list.
\<close>

theorem select_template_avoids_recent:
  "((\<exists>t \<in> set (theme_candidates themes (templates s)).
        template_name t \<notin> set (recent_window s p))
      \<longrightarrow> (\<exists>t. fst (select_template_for_day r themes p s) = Some t
              \<and> t \<in> set (theme_candidates themes (templates s))
              \<and> template_name t \<notin> set (recent_window s p))
          \<and> snd (select_template_for_day r themes p s) = s)
   \<and> ((\<forall>t \<in> set (theme_candidates themes (templates s)).
        template_name t \<in> set (recent_window s p))
      \<longrightarrow> snd (select_template_for_day r themes p s)
             = s\<lparr>recent_templates := (recent_templates s)(p \<mapsto> [])\<rparr>
          \<and> fst (select_template_for_day r themes p s) = choice r (all_templates (templates s))
          \<and> (theme_candidates themes (templates s) \<noteq> []
               \<longrightarrow> (\<exists>t. fst (select_template_for_day r themes p s) = Some t
                       \<and> t \<in> set (all_templates (templates s)))))
   \<and> length (recent_window s p) \<le> 30
   \<and> (\<exists>older. (case recent_templates s p of None \<Rightarrow> [] | Some r \<Rightarrow> r)
                 = older @ recent_window s p)"
proof -
  let ?C = "theme_candidates themes (templates s)"
  let ?F = "filter (\<lambda>t. template_name t \<notin> set (recent_window s p)) ?C"
  have sel: "select_template_for_day r themes p s =
      (if ?F = [] then (choice r (all_templates (templates s)),
                        s\<lparr>recent_templates := (recent_templates s)(p \<mapsto> [])\<rparr>)
       else (choice r ?F, s))"
    by (simp add: select_template_for_day_def Let_def)
  have fresh: "(\<exists>t. fst (select_template_for_day r themes p s) = Some t
              \<and> t \<in> set ?C \<and> template_name t \<notin> set (recent_window s p))
          \<and> snd (select_template_for_day r themes p s) = s"
    if "\<exists>t \<in> set ?C. template_name t \<notin> set (recent_window s p)"
  proof -
    from that have ne: "?F \<noteq> []"
      by (auto simp: filter_empty_conv)
    from choice_mem [OF ne, of r] obtain t where "choice r ?F = Some t" and "t \<in> set ?F"
      by blast
    then show ?thesis
      using ne by (auto simp: sel)
  qed
  have reset: "snd (select_template_for_day r themes p s)
             = s\<lparr>recent_templates := (recent_templates s)(p \<mapsto> [])\<rparr>
          \<and> fst (select_template_for_day r themes p s) = choice r (all_templates (templates s))
          \<and> (?C \<noteq> [] \<longrightarrow> (\<exists>t. fst (select_template_for_day r themes p s) = Some t
                       \<and> t \<in> set (all_templates (templates s))))"
    if "\<forall>t \<in> set ?C. template_name t \<in> set (recent_window s p)"
  proof -
    from that have e: "?F = []"
      by (auto simp: filter_empty_conv)
    have "all_templates (templates s) \<noteq> []" if "?C \<noteq> []"
      using that theme_candidates_subset [of themes "templates s"] by auto
    then show ?thesis
      using choice_mem [of "all_templates (templates s)" r] by (auto simp: sel e)
  qed
  show ?thesis
    using fresh reset recent_window_suffix [of s p] by blast
qed


theorem select_template_avoids_recent_witness:
  "(\<exists>t \<in> set (theme_candidates tuesday_themes (templates sample_scheduler)).
        template_name t \<notin> set (recent_window sample_scheduler ''facebook''))
   \<and> (\<exists>t. fst (select_template_for_day 7 tuesday_themes ''facebook'' sample_scheduler) = Some t
          \<and> template_name t \<notin> set (recent_window sample_scheduler ''facebook''))
   \<and> map_option template_name
         (fst (select_template_for_day 7 tuesday_themes ''facebook'' sample_scheduler))
        = Some ''number-theory''
   \<and> list_all (\<lambda>t. template_name t \<in> set (recent_window sample_scheduler ''threads''))
        (theme_candidates tuesday_themes (templates sample_scheduler))
   \<and> theme_candidates tuesday_themes (templates sample_scheduler) \<noteq> []
   \<and> recent_templates (snd (select_template_for_day 5 tuesday_themes ''threads'' sample_scheduler))
         ''threads'' = Some []
   \<and> (\<exists>t. fst (select_template_for_day 5 tuesday_themes ''threads'' sample_scheduler) = Some t
          \<and> t \<in> set (all_templates (templates sample_scheduler)))
   \<and> map_option template_name
         (fst (select_template_for_day 5 tuesday_themes ''threads'' sample_scheduler))
        = Some ''qubits''"
proof -
  have h1: "\<exists>t \<in> set (theme_candidates tuesday_themes (templates sample_scheduler)).
        template_name t \<notin> set (recent_window sample_scheduler ''facebook'')"
    by code_simp
  have h2: "\<forall>t \<in> set (theme_candidates tuesday_themes (templates sample_scheduler)).
        template_name t \<in> set (recent_window sample_scheduler ''threads'')"
    by code_simp
  have h3: "theme_candidates tuesday_themes (templates sample_scheduler) \<noteq> []"
    by code_simp
  have v1: "map_option template_name
         (fst (select_template_for_day 7 tuesday_themes ''facebook'' sample_scheduler))
        = Some ''number-theory''"
    and v2: "map_option template_name
         (fst (select_template_for_day 5 tuesday_themes ''threads'' sample_scheduler))
        = Some ''qubits''"
    by code_simp+
  from select_template_avoids_recent [of tuesday_themes sample_scheduler "''facebook''" 7] h1
  have c1: "\<exists>t. fst (select_template_for_day 7 tuesday_themes ''facebook'' sample_scheduler) = Some t
          \<and> template_name t \<notin> set (recent_window sample_scheduler ''facebook'')"
    by blast
  from select_template_avoids_recent [of tuesday_themes sample_scheduler "''threads''" 5] h2 h3
  have c2: "snd (select_template_for_day 5 tuesday_themes ''threads'' sample_scheduler)
             = sample_scheduler\<lparr>recent_templates := (recent_templates sample_scheduler)(''threads'' \<mapsto> [])\<rparr>"
    and c3: "\<exists>t. fst (select_template_for_day 5 tuesday_themes ''threads'' sample_scheduler) = Some t
          \<and> t \<in> set (all_templates (templates sample_scheduler))"
    by blast+
  from c2 have c4: "recent_templates (snd (select_template_for_day 5 tuesday_themes ''threads''
      sample_scheduler)) ''threads'' = Some []"
    by simp
  from h2 have h2': "list_all (\<lambda>t. template_name t \<in> set (recent_window sample_scheduler ''threads''))
        (theme_candidates tuesday_themes (templates sample_scheduler))"
    by (simp add: list_all_iff)
  from h1 h2' h3 v1 v2 c1 c3 c4 show ?thesis by blast
qed

subsection \<open>Instagram posts\<close>

















end
